theory Spec2Isabelle
  imports Main
begin

section \<open>Python values\<close>

text \<open>
  The three modules (\<open>api.py\<close> for UPS, \<open>fedex_integration.py\<close>,
  \<open>priority_integration.py\<close>) work on decoded JSON and on the fields of Frappe
  documents. Both are Python values: \<open>None\<close>, booleans, integers, strings, lists
  and dictionaries with string keys. Numbers with a fraction are left out: no status
  code, tracking number or description that the handlers read is one.
\<close>

datatype pyval =
    PNone
  | PBool bool
  | PInt int
  | PStr string
  | PList "pyval list"
  | PDict "(string \<times> pyval) list"

text \<open>The exceptions that the modelled expressions can raise.\<close>

datatype exn = KeyError | IndexError | TypeError | AttributeError | JSONDecodeError

text \<open>Sequencing of expressions that may raise: the first exception wins.\<close>

definition ebind :: "exn + 'a \<Rightarrow> ('a \<Rightarrow> exn + 'b) \<Rightarrow> exn + 'b" where
  "ebind m f = (case m of Inl x \<Rightarrow> Inl x | Inr v \<Rightarrow> f v)"

text \<open>Truth value of a Python value, as \<open>if x:\<close>, \<open>and\<close> and \<open>or\<close> test it.\<close>

fun truthy :: "pyval \<Rightarrow> bool" where
  "truthy PNone = False"
| "truthy (PBool b) = b"
| "truthy (PInt i) = (i \<noteq> 0)"
| "truthy (PStr s) = (s \<noteq> [])"
| "truthy (PList xs) = (xs \<noteq> [])"
| "truthy (PDict kvs) = (kvs \<noteq> [])"

text \<open>\<open>a or b\<close>.\<close>

definition py_or :: "pyval \<Rightarrow> pyval \<Rightarrow> pyval" where
  "py_or a b = (if truthy a then a else b)"

text \<open>
  Python compares \<open>True\<close> and \<open>1\<close> (and \<open>False\<close> and \<open>0\<close>) as equal and
  hashes them alike; \<open>py_key\<close> maps a value to the representative under which a
  dictionary files it and against which \<open>==\<close> compares it.
\<close>

fun py_key :: "pyval \<Rightarrow> pyval" where
  "py_key (PBool b) = PInt (if b then 1 else 0)"
| "py_key v = v"

definition py_eq :: "pyval \<Rightarrow> pyval \<Rightarrow> bool" where
  "py_eq a b = (py_key a = py_key b)"

text \<open>Lists and dictionaries are unhashable: using one as a dictionary key raises.\<close>

fun hashable :: "pyval \<Rightarrow> bool" where
  "hashable (PList xs) = False"
| "hashable (PDict kvs) = False"
| "hashable v = True"

text \<open>\<open>x[k]\<close> with a string \<open>k\<close>.\<close>

fun py_getitem :: "pyval \<Rightarrow> string \<Rightarrow> exn + pyval" where
  "py_getitem (PDict kvs) k = (case map_of kvs k of None \<Rightarrow> Inl KeyError | Some v \<Rightarrow> Inr v)"
| "py_getitem v k = Inl TypeError"

text \<open>\<open>x[0]\<close>. A dictionary decoded from JSON has string keys only, so \<open>0\<close> is never one.\<close>

fun py_index0 :: "pyval \<Rightarrow> exn + pyval" where
  "py_index0 (PList []) = Inl IndexError"
| "py_index0 (PList (x # xs)) = Inr x"
| "py_index0 (PStr []) = Inl IndexError"
| "py_index0 (PStr (c # cs)) = Inr (PStr [c])"
| "py_index0 (PDict kvs) = Inl KeyError"
| "py_index0 v = Inl TypeError"

text \<open>\<open>x.get(k)\<close> with a string \<open>k\<close>: only dictionaries have the method.\<close>

fun py_get :: "pyval \<Rightarrow> string \<Rightarrow> exn + pyval" where
  "py_get (PDict kvs) k = (case map_of kvs k of None \<Rightarrow> Inr PNone | Some v \<Rightarrow> Inr v)"
| "py_get v k = Inl AttributeError"

text \<open>\<open>k in x.keys()\<close>.\<close>

fun py_in_keys :: "string \<Rightarrow> pyval \<Rightarrow> exn + bool" where
  "py_in_keys k (PDict kvs) = Inr (map_of kvs k \<noteq> None)"
| "py_in_keys k v = Inl AttributeError"

text \<open>\<open>len(x)\<close>.\<close>

fun py_len :: "pyval \<Rightarrow> exn + nat" where
  "py_len (PList xs) = Inr (length xs)"
| "py_len (PStr s) = Inr (length s)"
| "py_len (PDict kvs) = Inr (length kvs)"
| "py_len v = Inl TypeError"

text \<open>The elements that \<open>for x in v\<close> visits.\<close>

fun py_iter :: "pyval \<Rightarrow> exn + pyval list" where
  "py_iter (PList xs) = Inr xs"
| "py_iter (PStr s) = Inr (map (\<lambda>c. PStr [c]) s)"
| "py_iter (PDict kvs) = Inr (map (\<lambda>kv. PStr (fst kv)) kvs)"
| "py_iter v = Inl TypeError"

text \<open>Decimal rendering of an integer, as \<open>str\<close> and f-strings give it.\<close>

fun str_nat :: "nat \<Rightarrow> string" where
  "str_nat n = (if n < 10 then [''0123456789'' ! n]
                else str_nat (n div 10) @ [''0123456789'' ! (n mod 10)])"

definition str_int :: "int \<Rightarrow> string" where
  "str_int i = (if i < 0 then CHR ''-'' # str_nat (nat (- i)) else str_nat (nat i))"

text \<open>
  What the code takes from outside the repository: the clock (\<open>now()\<close>,
  \<open>today()\<close>, as numbers of seconds and of days), \<open>frappe.utils.cint\<close>,
  \<open>json.loads\<close> (\<open>None\<close> when it raises \<open>JSONDecodeError\<close>), Python's
  \<open>repr\<close> of a list or dictionary, \<open>strftime\<close> (format, then the day),
  the text of \<open>frappe.get_traceback()\<close> and the fresh identifier of
  \<open>uuid.uuid4()\<close>.
\<close>

record env =
  now :: int
  today :: int
  cint :: "pyval \<Rightarrow> int"
  json_loads :: "string \<Rightarrow> pyval option"
  py_repr :: "pyval \<Rightarrow> string"
  strftime :: "string \<Rightarrow> int \<Rightarrow> string"
  get_traceback :: string
  uuid4 :: string

text \<open>\<open>f"{v}"\<close>.\<close>

fun py_str :: "env \<Rightarrow> pyval \<Rightarrow> string" where
  "py_str e PNone = ''None''"
| "py_str e (PBool b) = (if b then ''True'' else ''False'')"
| "py_str e (PInt i) = str_int i"
| "py_str e (PStr s) = s"
| "py_str e v = py_repr e v"

section \<open>Documents, settings and transport\<close>

text \<open>
  A column of a Frappe settings table holds a scalar: nothing, an integer or a string.
\<close>

datatype field = FNone | FInt int | FStr string

fun of_field :: "field \<Rightarrow> pyval" where
  "of_field FNone = PNone"
| "of_field (FInt i) = PInt i"
| "of_field (FStr s) = PStr s"

text \<open>
  The fields of a Delivery Note that the three modules read or assign. An assignment
  stores the Python value as it is; the three date fields hold \<open>None\<close> or a
  reading of the clock. \<open>custom_tracking_details\<close> is the child table, one row
  \<open>(tracking_id, status_code, status_description)\<close> per \<open>append\<close>.
\<close>

record delivery_note =
  dn_name :: string
  tracking_number :: pyval
  custom_tracking :: pyval
  custom_tracking_code :: pyval
  custom_last_api_call :: "int option"
  custom_last_date_for_processing_status :: "int option"
  custom_incident_first_date :: "int option"
  custom_tracking_details :: "(pyval \<times> pyval \<times> pyval) list"
  posting_date :: int
  set_warehouse :: pyval

text \<open>
  What a call of a handler leaves behind: the exception that escaped it, if any, and the
  document as the handler last saved it (the document it was given when it saved nothing).
\<close>

type_synonym run = "exn option \<times> delivery_note"

definition finish :: "delivery_note \<Rightarrow> exn + run \<Rightarrow> run" where
  "finish doc r = (case r of Inl x \<Rightarrow> (Some x, doc) | Inr p \<Rightarrow> p)"

text \<open>
  The \<open>error\<close> that \<open>make_api_request\<close> returns: \<open>None\<close>, a string (the
  decoded body or a traceback), the one-element tuple that the trailing comma of
  \<open>error = f"status_code: {response.status_code}",\<close> builds, or (Priority only) a
  dictionary with the status code and, for a non-empty body, the content.
\<close>

datatype api_error =
    ErrNone
  | ErrStr string
  | ErrTuple string
  | ErrDict "string option" int

fun err_truthy :: "api_error \<Rightarrow> bool" where
  "err_truthy ErrNone = False"
| "err_truthy (ErrStr s) = (s \<noteq> [])"
| "err_truthy (ErrTuple s) = True"
| "err_truthy (ErrDict c n) = True"

text \<open>
  What \<open>requests.request\<close> does: it raises, or it returns a response with a status
  code and a body.
\<close>

datatype http_outcome = HttpRaised | HttpResponse int string

text \<open>
  \<open>make_api_request\<close> of \<open>api.py\<close> and \<open>fedex_integration.py\<close> (the two
  differ in the title of the log entry only): the pair \<open>(result, error)\<close>.
\<close>

definition make_api_request :: "env \<Rightarrow> int list \<Rightarrow> http_outcome \<Rightarrow> pyval \<times> api_error" where
  "make_api_request e success_codes out =
     (case out of
        HttpRaised \<Rightarrow> (PDict [], ErrStr (get_traceback e))
      | HttpResponse status_code content \<Rightarrow>
          if status_code \<in> set success_codes then
            (case json_loads e content of
               None \<Rightarrow> (PDict [], ErrStr (get_traceback e))
             | Some result \<Rightarrow> (result, ErrNone))
          else if content \<noteq> [] then (PDict [], ErrStr content)
          else (PDict [], ErrTuple (''status_code: '' @ str_int status_code)))"

text \<open>\<open>make_api_request\<close> of \<open>priority_integration.py\<close>.\<close>

definition priority_make_api_request :: "env \<Rightarrow> int list \<Rightarrow> http_outcome \<Rightarrow> pyval \<times> api_error" where
  "priority_make_api_request e success_codes out =
     (case out of
        HttpRaised \<Rightarrow> (PDict [], ErrStr (get_traceback e))
      | HttpResponse status_code content \<Rightarrow>
          if status_code \<in> set success_codes then
            (case json_loads e content of
               None \<Rightarrow> (PDict [], ErrStr (get_traceback e))
             | Some result \<Rightarrow> (result, ErrNone))
          else if content \<noteq> [] then (PDict [], ErrDict (Some content) status_code)
          else (PDict [], ErrDict None status_code))"

text \<open>
  The Parcel Service Settings document. The three code tables are lists of rows in the
  order of the table: \<open>(status_code, jammy_description)\<close> for UPS,
  \<open>(fedex_status_code, jammy_description)\<close> and
  \<open>(fedex_error_code, jammy_description)\<close> for FedEx,
  \<open>(priority_status_description, jammy_description)\<close> and
  \<open>(response_code, priority_error_code_description, jammy_description)\<close> for
  Priority; \<open>account_number_details\<close> has rows
  \<open>(source_warehouse, account_number)\<close>. The field \<open>locale\<close> of the
  document is \<open>ups_locale\<close> here, and the day counts, which the code passes
  through \<open>int\<close>, are integers.
\<close>

record settings =
  status_code_description :: "(field \<times> field) list"
  ups_server_url :: string
  track_by_reference_number_url :: string
  track_by_inquiry_number_url :: string
  ups_app_name :: string
  ups_locale :: string
  check_no_of_days_api :: int
  ref_number_type :: string
  tracking_code_description :: "(field \<times> field) list"
  error_code_description :: "(field \<times> field) list"
  fedex_server_url :: string
  fedex_track_by_reference_number_url :: string
  fedex_track_by_tracking_id :: string
  x_locale :: pyval
  reference_type :: pyval
  check_for_no_of_days :: int
  include_detailed_scans_in_response :: pyval
  include_detailed_scan :: pyval
  account_number_details :: "(field \<times> field) list"
  response_code_details :: "(field \<times> field) list"
  error_code_details :: "(field \<times> field \<times> field) list"
  priority_base_url :: string
  priority_tracking_url :: string
  priority_api_key :: pyval
  shipment_identifier_type :: pyval

text \<open>
  A Python dictionary keyed by scalars, built by \<open>update\<close> row after row: a later
  row with the same key replaces the earlier one.
\<close>

definition dict_of_rows :: "(field \<times> 'v) list \<Rightarrow> (pyval \<rightharpoonup> 'v)" where
  "dict_of_rows rows = fold (\<lambda>row m. m(py_key (of_field (fst row)) \<mapsto> snd row)) rows Map.empty"

text \<open>\<open>d[k]\<close> and \<open>d.get(k)\<close> on such a dictionary.\<close>

definition dict_item :: "(pyval \<rightharpoonup> 'v) \<Rightarrow> pyval \<Rightarrow> exn + 'v" where
  "dict_item d k =
     (if \<not> hashable k then Inl TypeError
      else case d (py_key k) of None \<Rightarrow> Inl KeyError | Some v \<Rightarrow> Inr v)"

definition dict_get :: "(pyval \<rightharpoonup> 'v) \<Rightarrow> pyval \<Rightarrow> exn + 'v option" where
  "dict_get d k = (if \<not> hashable k then Inl TypeError else Inr (d (py_key k)))"

section \<open>Credentials\<close>

text \<open>
  The Frappe cache: a key holds a value and, when given, the number of seconds after
  which the entry expires. \<open>get_value\<close> of a key that is not there is \<open>None\<close>.
\<close>

type_synonym cache = "string \<rightharpoonup> (pyval \<times> int option)"

definition cache_get_value :: "cache \<Rightarrow> string \<Rightarrow> pyval" where
  "cache_get_value c k = (case c k of None \<Rightarrow> PNone | Some entry \<Rightarrow> fst entry)"

text \<open>\<open>data.x\<close> on a \<open>frappe._dict\<close>: a missing key reads as \<open>None\<close>.\<close>

definition dict_attr :: "(string \<times> pyval) list \<Rightarrow> string \<Rightarrow> pyval" where
  "dict_attr data k = (case map_of data k of None \<Rightarrow> PNone | Some v \<Rightarrow> v)"

text \<open>
  A client object after \<open>__init__\<close>: the token, the headers, the cache as the
  constructor left it, and the titles of the error-log entries it wrote.
\<close>

record client =
  access_token :: pyval
  headers :: "(string \<times> pyval) list"
  client_cache :: cache
  error_log :: "string list"

text \<open>
  \<open>get_auth_token\<close>. The token call is the parameter \<open>issued\<close>: \<open>Some data\<close>
  is the \<open>frappe._dict\<close> built from the decoded response, \<open>None\<close> stands for any
  exception raised inside the \<open>try\<close> (no connection, a body that is not JSON or not
  an object). The \<open>except\<close> branch writes a log entry and falls off the end of the
  method, which returns \<open>None\<close>. The result is the returned value, the cache and the
  log titles.
\<close>

definition ups_get_auth_token ::
  "env \<Rightarrow> cache \<Rightarrow> (string \<times> pyval) list option \<Rightarrow> pyval \<times> cache \<times> string list" where
  "ups_get_auth_token e c issued =
     (case issued of
        None \<Rightarrow> (PNone, c, [''UPS OAuth token connection failed.''])
      | Some data \<Rightarrow>
          (dict_attr data ''access_token'',
           c(''ups_api_access_token'' \<mapsto>
               (dict_attr data ''access_token'', Some (cint e (dict_attr data ''expires_in'') - 300))),
           []))"

definition fedex_get_auth_token ::
  "env \<Rightarrow> cache \<Rightarrow> (string \<times> pyval) list option \<Rightarrow> pyval \<times> cache \<times> string list" where
  "fedex_get_auth_token e c issued =
     (case issued of
        None \<Rightarrow> (PNone, c, [''FedEx OAuth Token Generation Failed''])
      | Some data \<Rightarrow>
          (dict_attr data ''access_token'',
           c(''fedex_access_token'' \<mapsto>
               (dict_attr data ''access_token'', Some (cint e (dict_attr data ''expires_in'') - 300))),
           []))"

text \<open>
  \<open>UPSClient()\<close> and \<open>FedExIntegration()\<close>: \<open>__initialize_auth\<close> reads the
  cache, asks for a token when the cached value is falsy, and formats the header
  whatever the token is.
\<close>

definition UPSClient :: "env \<Rightarrow> cache \<Rightarrow> (string \<times> pyval) list option \<Rightarrow> client" where
  "UPSClient e c issued =
     (let cached = cache_get_value c ''ups_api_access_token'';
          r = (if \<not> truthy cached then ups_get_auth_token e c issued else (cached, c, []))
      in \<lparr>access_token = fst r,
          headers = [(''Authorization'', PStr (''Bearer '' @ py_str e (fst r)))],
          client_cache = fst (snd r),
          error_log = snd (snd r)\<rparr>)"

definition FedExIntegration :: "env \<Rightarrow> cache \<Rightarrow> (string \<times> pyval) list option \<Rightarrow> client" where
  "FedExIntegration e c issued =
     (let cached = cache_get_value c ''fedex_access_token'';
          r = (if \<not> truthy cached then fedex_get_auth_token e c issued else (cached, c, []))
      in \<lparr>access_token = fst r,
          headers = [(''Authorization'', PStr (''Bearer '' @ py_str e (fst r)))],
          client_cache = fst (snd r),
          error_log = snd (snd r)\<rparr>)"

text \<open>
  \<open>PriorityIntegration()\<close>: the token is the configured API key; reading a field
  of the settings document does not raise, so the \<open>except\<close> branch is never taken.
\<close>

definition priority_get_auth_token :: "settings \<Rightarrow> cache \<Rightarrow> pyval \<times> cache \<times> string list" where
  "priority_get_auth_token s c =
     (priority_api_key s, c(''priority_access_token'' \<mapsto> (priority_api_key s, None)), [])"

definition PriorityIntegration :: "env \<Rightarrow> settings \<Rightarrow> cache \<Rightarrow> client" where
  "PriorityIntegration e s c =
     (let cached = cache_get_value c ''priority_access_token'';
          r = (if \<not> truthy cached then priority_get_auth_token s c else (cached, c, []))
      in \<lparr>access_token = fst r,
          headers = [(''X-API-KEY'', PStr (py_str e (fst r)))],
          client_cache = fst (snd r),
          error_log = snd (snd r)\<rparr>)"

section \<open>Requests\<close>

text \<open>
  What is handed to \<open>make_api_request\<close>: the URL, the headers, the query
  parameters and the JSON body.
\<close>

record request =
  url :: string
  req_headers :: "(string \<times> pyval) list"
  params :: "(string \<times> pyval) list"
  json_data :: pyval

text \<open>
  The first half of \<open>get_ups_tracking_data\<close>: the request and the
  \<open>tracking_method\<close>. The \<open>elif\<close> tests the negation of the \<open>if\<close>, so
  exactly one of the two branches runs.
\<close>

definition ups_tracking_request ::
  "env \<Rightarrow> settings \<Rightarrow> client \<Rightarrow> string \<Rightarrow> delivery_note \<Rightarrow> request \<times> string" where
  "ups_tracking_request e s cl delivery_note delivery_note_doc =
     (let hdrs = headers cl @ [(''transId'', PStr (uuid4 e)), (''transactionSrc'', PStr (ups_app_name s))];
          params0 = [(''locale'', PStr (ups_locale s))];
          reference_number = delivery_note
      in if py_eq (tracking_number delivery_note_doc) PNone then
           (\<lparr>url = ups_server_url s @ track_by_reference_number_url s @ reference_number,
             req_headers = hdrs,
             params = params0 @
               [(''fromPickUpDate'', PStr (strftime e ''%Y%m%d'' (today e - check_no_of_days_api s))),
                (''toPickUpDate'', PStr (strftime e ''%Y%m%d'' (today e))),
                (''refNumType'', PStr (ref_number_type s))],
             json_data = PDict []\<rparr>,
            ''By Reference'')
         else
           (\<lparr>url = ups_server_url s @ track_by_inquiry_number_url s
                    @ py_str e (tracking_number delivery_note_doc),
             req_headers = hdrs,
             params = params0 @
               [(''returnSignature'', PStr ''false''),
                (''returnMilestones'', PStr ''false''),
                (''returnPOD'', PStr ''false'')],
             json_data = PDict []\<rparr>,
            ''By Tracking ID''))"

text \<open>
  The first half of \<open>fetch_fedex_tracking_details\<close>. The loop over
  \<open>account_number_details\<close> stops at the first row of the document's warehouse.
\<close>

fun find_account_number :: "(field \<times> field) list \<Rightarrow> pyval \<Rightarrow> pyval" where
  "find_account_number [] w = PNone"
| "find_account_number (acc # accs) w =
     (if py_eq (of_field (fst acc)) w then of_field (snd acc) else find_account_number accs w)"

definition fedex_tracking_request ::
  "env \<Rightarrow> settings \<Rightarrow> client \<Rightarrow> string \<Rightarrow> delivery_note \<Rightarrow> request \<times> pyval" where
  "fedex_tracking_request e s cl dn doc =
     (let hdrs = headers cl @
                 [(''content-type'', PStr ''application/json''),
                  (''x-locale'', py_or (x_locale s) (PStr ''en_US''))];
          accountNumber = find_account_number (account_number_details s) (set_warehouse doc)
      in if py_eq (tracking_number doc) PNone then
           (\<lparr>url = fedex_server_url s @ fedex_track_by_reference_number_url s,
             req_headers = hdrs @ [(''x-customer-transaction-id'', PStr (uuid4 e))],
             params = [],
             json_data = PDict
               [(''referencesInformation'', PDict
                   [(''type'', py_or (reference_type s) (PStr ''SHIPPER_REFERENCE'')),
                    (''value'', PStr dn),
                    (''accountNumber'', accountNumber),
                    (''carrierCode'', PStr ''FXFR''),
                    (''shipDateBegin'', PStr (strftime e ''%Y-%m-%d'' (posting_date doc - 2))),
                    (''shipDateEnd'',
                       PStr (strftime e ''%Y-%m-%d'' (posting_date doc + check_for_no_of_days s)))]),
                (''includeDetailedScans'',
                   py_or (include_detailed_scans_in_response s) (PStr ''True''))]\<rparr>,
            PStr ''By Reference'')
         else
           (\<lparr>url = fedex_server_url s @ fedex_track_by_tracking_id s,
             req_headers = hdrs,
             params = [],
             json_data = PDict
               [(''includeDetailedScans'', py_or (include_detailed_scan s) (PStr ''True'')),
                (''trackingInfo'', PList
                   [PDict [(''trackingNumberInfo'',
                            PDict [(''trackingNumber'', tracking_number doc)])]])]\<rparr>,
            PStr ''By Tracking ID''))"

text \<open>
  The first half of \<open>fetch_priority_tracking_details\<close>: one request shape, built
  from the name of the Delivery Note alone.
\<close>

definition priority_tracking_request :: "settings \<Rightarrow> client \<Rightarrow> string \<Rightarrow> request" where
  "priority_tracking_request s cl dn =
     \<lparr>url = priority_base_url s @ priority_tracking_url s,
      req_headers = headers cl @ [(''Content-Type'', PStr ''application/json'')],
      params = [],
      json_data = PDict [(''identifierType'', shipment_identifier_type s),
                         (''identifierValue'', PStr dn)]\<rparr>"

section \<open>UPS: \<open>set_data_in_delivery_note\<close>\<close>

text \<open>\<open>result['trackResponse']['shipment'][0]\<close>.\<close>

definition ups_shipment :: "pyval \<Rightarrow> exn + pyval" where
  "ups_shipment result =
     ebind (py_getitem result ''trackResponse'') (\<lambda>tr.
     ebind (py_getitem tr ''shipment'') py_index0)"

text \<open>\<open>package['currentStatus']['code']\<close>.\<close>

definition current_status_code :: "pyval \<Rightarrow> exn + pyval" where
  "current_status_code package = ebind (py_getitem package ''currentStatus'') (\<lambda>cs. py_getitem cs ''code'')"

text \<open>
  The loop that picks the parent status: no \<open>break\<close>, so the last row whose
  \<open>status_code\<close> equals the integer wins, and the empty string stays when none does.
\<close>

definition parent_status :: "(field \<times> field) list \<Rightarrow> int \<Rightarrow> pyval" where
  "parent_status rows c =
     fold (\<lambda>status acc. if py_eq (of_field (fst status)) (PInt c) then of_field (snd status) else acc)
          rows (PStr [])"

text \<open>
  The loop that appends one child row per package; the subscript
  \<open>code_status_map[cint(...)]\<close> raises \<open>KeyError\<close> for an integer that is not a key.
\<close>

fun append_tracking_details ::
  "env \<Rightarrow> (pyval \<rightharpoonup> field) \<Rightarrow> pyval list \<Rightarrow> (pyval \<times> pyval \<times> pyval) list
     \<Rightarrow> exn + (pyval \<times> pyval \<times> pyval) list" where
  "append_tracking_details e m [] rows = Inr rows"
| "append_tracking_details e m (package # packages) rows =
     ebind (py_getitem package ''trackingNumber'') (\<lambda>tid.
     ebind (current_status_code package) (\<lambda>code.
     ebind (current_status_code package) (\<lambda>code2.
     ebind (dict_item m (PInt (cint e code2))) (\<lambda>descr.
       append_tracking_details e m packages (rows @ [(tid, code, of_field descr)])))))"

definition set_data_in_delivery_note ::
  "env \<Rightarrow> settings \<Rightarrow> delivery_note \<Rightarrow> pyval \<Rightarrow> api_error \<Rightarrow> string \<Rightarrow> run" where
  "set_data_in_delivery_note e s dn_doc result error tracking_method =
     (let code_status_map = dict_of_rows (status_code_description s) in
      if err_truthy error then (None, dn_doc\<lparr>custom_tracking := PStr ''ERPNext Exception''\<rparr>)
      else finish dn_doc (
        ebind (ups_shipment result) (\<lambda>shipment.
        ebind (py_in_keys ''warnings'' shipment) (\<lambda>has_warnings.
        if has_warnings then
          (let saved = dn_doc\<lparr>custom_tracking := PStr ''DN Not Found In UPS''\<rparr> in
           case ebind (py_getitem shipment ''warnings'') (\<lambda>w.
                ebind (py_index0 w) (\<lambda>w0. py_getitem w0 ''message'')) of
             Inl x \<Rightarrow> Inr (Some x, saved)
           | Inr msg \<Rightarrow> Inr (None, saved))
        else
          ebind (py_getitem shipment ''package'') (\<lambda>packages.
          ebind (py_len packages) (\<lambda>n.
          if n > 0 then
            if tracking_method = ''By Reference'' then
              ebind (py_index0 packages) (\<lambda>p0.
              ebind (py_getitem p0 ''trackingNumber'') (\<lambda>parent_ups_tracking_id.
              ebind (current_status_code p0) (\<lambda>parent_ups_tracking_code.
              ebind (py_iter packages) (\<lambda>ps.
              ebind (append_tracking_details e code_status_map ps (custom_tracking_details dn_doc))
                (\<lambda>rows.
                Inr (None,
                     dn_doc\<lparr>tracking_number := parent_ups_tracking_id,
                            custom_tracking_code := parent_ups_tracking_code,
                            custom_tracking :=
                              parent_status (status_code_description s) (cint e parent_ups_tracking_code),
                            custom_last_api_call := Some (now e),
                            custom_tracking_details := rows\<rparr>))))))
            else if tracking_method = ''By Tracking ID'' then
              ebind (py_index0 packages) (\<lambda>p0.
              ebind (py_getitem p0 ''activity'') (\<lambda>package_activities.
              ebind (py_len package_activities) (\<lambda>k.
              if k > 0 then
                ebind (py_index0 package_activities) (\<lambda>a0.
                ebind (py_getitem a0 ''status'') (\<lambda>st.
                ebind (py_getitem st ''statusCode'') (\<lambda>updated_status_code.
                ebind (dict_item code_status_map (PInt (cint e updated_status_code)))
                  (\<lambda>upadated_status_description.
                  Inr (None,
                       dn_doc\<lparr>custom_tracking_code := updated_status_code,
                              custom_tracking := of_field upadated_status_description,
                              custom_last_api_call := Some (now e)\<rparr>)))))
              else Inr (None, dn_doc))))
            else Inr (None, dn_doc)
          else Inr (None, dn_doc)))))))"

text \<open>
  \<open>get_ups_tracking_data\<close>: the client, the request, the call (the carrier is the
  parameter \<open>http\<close>), then the handler with the \<open>tracking_method\<close> that the
  request was built with.
\<close>

definition get_ups_tracking_data ::
  "env \<Rightarrow> settings \<Rightarrow> cache \<Rightarrow> (string \<times> pyval) list option \<Rightarrow> (request \<Rightarrow> http_outcome)
     \<Rightarrow> string \<Rightarrow> delivery_note \<Rightarrow> run" where
  "get_ups_tracking_data e s c issued http delivery_note delivery_note_doc =
     (let cl = UPSClient e c issued;
          rq = ups_tracking_request e s cl delivery_note delivery_note_doc;
          ra = make_api_request e [200] (http (fst rq))
      in set_data_in_delivery_note e s delivery_note_doc (fst ra) (snd ra) (snd rq))"

section \<open>FedEx: \<open>update_delivery_note_with_fedex_details\<close>\<close>

text \<open>
  \<open>json.loads(error)\<close>: a string is decoded (or \<open>JSONDecodeError\<close> is raised),
  a tuple or a dictionary is no string and raises \<open>TypeError\<close>.
\<close>

fun loads_error :: "env \<Rightarrow> api_error \<Rightarrow> exn + pyval" where
  "loads_error e (ErrStr s) = (case json_loads e s of None \<Rightarrow> Inl JSONDecodeError | Some j \<Rightarrow> Inr j)"
| "loads_error e err = Inl TypeError"

text \<open>\<open>track_results.get('trackResults')[0]\<close>.\<close>

definition first_track_result :: "pyval \<Rightarrow> exn + pyval" where
  "first_track_result track_results = ebind (py_get track_results ''trackResults'') py_index0"

text \<open>\<open>d.get(k)\<close> on a code table, as a Python value.\<close>

definition table_get :: "(pyval \<rightharpoonup> field) \<Rightarrow> pyval \<Rightarrow> exn + pyval" where
  "table_get d k =
     ebind (dict_get d k) (\<lambda>r. Inr (case r of None \<Rightarrow> PNone | Some v \<Rightarrow> of_field v))"

text \<open>
  The statements that the two branches \<open>By Reference\<close> and \<open>By Tracking ID\<close>
  share. First the two right-hand sides: the value for \<open>custom_tracking_code\<close> and
  the value for \<open>custom_tracking\<close>, where \<open>or\<close> evaluates the description only
  when the table gave nothing truthy.
\<close>

definition fedex_code_and_status :: "(pyval \<rightharpoonup> field) \<Rightarrow> pyval \<Rightarrow> exn + (pyval \<times> pyval)" where
  "fedex_code_and_status success_map r0 =
     ebind (py_get r0 ''latestStatusDetail'') (\<lambda>lsd.
     ebind (py_get lsd ''code'') (\<lambda>code.
     ebind (py_get r0 ''statusCode'') (\<lambda>sc.
     ebind (table_get success_map sc) (\<lambda>mapped.
     ebind (if truthy mapped then Inr mapped else py_get lsd ''description'') (\<lambda>status.
       Inr (code, status))))))"

text \<open>
  Then the two assignments and the \<open>if\<close>/\<open>elif\<close> on the date of the first
  \<open>Processing\<close>; the document \<open>d\<close> already carries the assignments made before.
\<close>

definition fedex_status_and_date ::
  "env \<Rightarrow> (pyval \<rightharpoonup> field) \<Rightarrow> pyval \<Rightarrow> delivery_note \<Rightarrow> exn + delivery_note" where
  "fedex_status_and_date e success_map r0 d =
     ebind (fedex_code_and_status success_map r0) (\<lambda>cs.
       Inr (d\<lparr>custom_tracking_code := fst cs,
               custom_tracking := snd cs,
               custom_last_date_for_processing_status :=
                 (if py_eq (snd cs) (PStr ''Processing'')
                     \<and> custom_last_date_for_processing_status d = None
                  then Some (today e)
                  else if \<not> py_eq (snd cs) (PStr ''Processing'') then None
                  else custom_last_date_for_processing_status d)\<rparr>))"

definition update_delivery_note_with_fedex_details ::
  "env \<Rightarrow> settings \<Rightarrow> delivery_note \<Rightarrow> pyval \<Rightarrow> api_error \<Rightarrow> pyval \<Rightarrow> run" where
  "update_delivery_note_with_fedex_details e s document response error api_type =
     (let success_map = dict_of_rows (tracking_code_description s);
          error_map = dict_of_rows (error_code_description s) in
      finish document (
        if err_truthy error then
          ebind (loads_error e error) (\<lambda>parsed.
            Inr (None, document\<lparr>custom_tracking := PStr ''Exception''\<rparr>))
        else if truthy response then
          ebind (py_get response ''output'') (\<lambda>output.
          ebind (if truthy output then py_get output ''completeTrackResults'' else Inr output) (\<lambda>ctr.
          if truthy ctr then
            ebind (py_index0 ctr) (\<lambda>track_results.
            if truthy track_results then
              ebind (first_track_result track_results) (\<lambda>r0.
              ebind (py_in_keys ''latestStatusDetail'' r0) (\<lambda>has_status.
              if \<not> has_status then
                ebind (py_get r0 ''error'') (\<lambda>err.
                ebind (py_get err ''code'') (\<lambda>code.
                ebind (table_get error_map code) (\<lambda>status.
                  Inr (None, document\<lparr>custom_tracking_code := code, custom_tracking := status\<rparr>))))
              else if py_eq api_type (PStr ''By Reference'') then
                ebind (py_get track_results ''trackingNumber'') (\<lambda>tn.
                ebind (fedex_status_and_date e success_map r0
                         (document\<lparr>custom_last_api_call := Some (now e), tracking_number := tn\<rparr>))
                  (\<lambda>d. Inr (None, d)))
              else if py_eq api_type (PStr ''By Tracking ID'') then
                ebind (fedex_status_and_date e success_map r0
                         (document\<lparr>custom_last_api_call := Some (now e)\<rparr>))
                  (\<lambda>d. Inr (None, d))
              else Inr (None, document)))
            else Inr (None, document))
          else Inr (None, document)))
        else Inr (None, document)))"

definition fetch_fedex_tracking_details ::
  "env \<Rightarrow> settings \<Rightarrow> cache \<Rightarrow> (string \<times> pyval) list option \<Rightarrow> (request \<Rightarrow> http_outcome)
     \<Rightarrow> string \<Rightarrow> delivery_note \<Rightarrow> run" where
  "fetch_fedex_tracking_details e s c issued http dn doc =
     (let cl = FedExIntegration e c issued;
          rq = fedex_tracking_request e s cl dn doc;
          ra = make_api_request e [200, 201] (http (fst rq))
      in update_delivery_note_with_fedex_details e s doc (fst ra) (snd ra) (snd rq))"

section \<open>Priority: \<open>update_delivery_note_with_priority_details\<close>\<close>

text \<open>
  \<open>isinstance(error, dict)\<close> is true of the dictionary only. \<open>error_map\<close> has the
  \<open>response_code\<close> of a row as key and the row's two descriptions as value;
  \<open>desc.get("jammy_description")\<close> raises \<open>AttributeError\<close> when the key was not
  found and \<open>desc\<close> is \<open>None\<close>.
\<close>

definition jammy_of_desc :: "(field \<times> field) option \<Rightarrow> exn + pyval" where
  "jammy_of_desc desc = (case desc of None \<Rightarrow> Inl AttributeError | Some d \<Rightarrow> Inr (of_field (snd d)))"

definition update_delivery_note_with_priority_details ::
  "env \<Rightarrow> settings \<Rightarrow> delivery_note \<Rightarrow> pyval \<Rightarrow> api_error \<Rightarrow> run" where
  "update_delivery_note_with_priority_details e s document response error =
     (let success_map = dict_of_rows (response_code_details s);
          error_map = dict_of_rows (error_code_details s) in
      finish document (
        if err_truthy error then
          (case error of
             ErrDict content code \<Rightarrow>
               if code = 401 then
                 ebind (dict_get error_map (PStr (str_int code))) (\<lambda>desc.
                 ebind (jammy_of_desc desc) (\<lambda>status.
                   Inr (None, document\<lparr>custom_tracking := status\<rparr>)))
               else
                 ebind (dict_get error_map (PStr (str_int code))) (\<lambda>desc.
                 ebind (jammy_of_desc desc) (\<lambda>status.
                   Inr (None,
                        document\<lparr>custom_tracking := status,
                                 custom_incident_first_date :=
                                   (if code = 500 \<and> custom_incident_first_date document = None
                                    then Some (today e)
                                    else custom_incident_first_date document)\<rparr>)))
           | _ \<Rightarrow> Inr (None, document\<lparr>custom_tracking := PStr ''Exception''\<rparr>))
        else if truthy response then
          ebind (py_get response ''shipments'') (\<lambda>shipments.
          if truthy shipments then
            ebind (py_index0 shipments) (\<lambda>track_results.
            if truthy track_results then
              ebind (py_get track_results ''id'') (\<lambda>tid.
              ebind (py_get track_results ''status'') (\<lambda>st.
              ebind (table_get success_map st) (\<lambda>status.
                Inr (None,
                     document\<lparr>tracking_number := tid,
                              custom_tracking_code := PStr ''200'',
                              custom_tracking := status,
                              custom_last_api_call := Some (now e)\<rparr>))))
            else Inr (None, document))
          else Inr (None, document))
        else Inr (None, document)))"

definition fetch_priority_tracking_details ::
  "env \<Rightarrow> settings \<Rightarrow> cache \<Rightarrow> (request \<Rightarrow> http_outcome) \<Rightarrow> string \<Rightarrow> delivery_note \<Rightarrow> run" where
  "fetch_priority_tracking_details e s c http dn doc =
     (let cl = PriorityIntegration e s c;
          rq = priority_tracking_request s cl dn;
          ra = priority_make_api_request e [200, 201] (http rq)
      in update_delivery_note_with_priority_details e s doc (fst ra) (snd ra))"

section \<open>Example inputs\<close>

text \<open>
  Concrete inputs on which the theorems below are instantiated. \<open>example_cint\<close>
  agrees with \<open>cint\<close> on integers and on the code strings that the examples use;
  \<open>example_loads\<close> decodes the empty object and rejects the other texts used here,
  none of which is JSON.
\<close>

definition example_cint :: "pyval \<Rightarrow> int" where
  "example_cint v =
     (case v of
        PInt i \<Rightarrow> i
      | PStr s \<Rightarrow> (case map_of [(''3'', 3), (''5'', 5), (''11'', 11), (''999'', 999)] s of
                    Some i \<Rightarrow> i | None \<Rightarrow> 0)
      | _ \<Rightarrow> 0)"

definition example_loads :: "string \<Rightarrow> pyval option" where
  "example_loads s = (if s = ''{}'' then Some (PDict []) else None)"

definition example_env :: env where
  "example_env =
     \<lparr>now = 1762250400, today = 20396, cint = example_cint, json_loads = example_loads,
      py_repr = (\<lambda>v. ''[...]''), strftime = (\<lambda>fmt d. str_int d),
      get_traceback = ''Traceback (most recent call last): ConnectionError'',
      uuid4 = ''6f1c2b1e-0000-4000-8000-000000000001''\<rparr>"

definition example_settings :: settings where
  "example_settings =
     \<lparr>status_code_description =
        [(FInt 0, FStr ''Not Found''), (FInt 3, FStr ''Processing''),
         (FInt 5, FStr ''In Transit''), (FInt 11, FStr ''Delivered'')],
      ups_server_url = ''https://onlinetools.ups.com'',
      track_by_reference_number_url = ''/api/track/v1/reference/details/'',
      track_by_inquiry_number_url = ''/api/track/v1/details/'',
      ups_app_name = ''erpnext'',
      ups_locale = ''en_US'',
      check_no_of_days_api = 30,
      ref_number_type = ''SmallPackage'',
      tracking_code_description =
        [(FStr ''AA'', FStr ''In Transit''), (FStr ''DL'', FStr ''Delivered''),
         (FStr ''OC'', FStr ''Processing'')],
      error_code_description =
        [(FStr ''TRACKING.REFERENCENUMBER.NOTFOUND'', FStr ''Exception'')],
      fedex_server_url = ''https://apis.fedex.com'',
      fedex_track_by_reference_number_url = ''/track/v1/referencenumbers'',
      fedex_track_by_tracking_id = ''/track/v1/trackingnumbers'',
      x_locale = PNone,
      reference_type = PNone,
      check_for_no_of_days = 10,
      include_detailed_scans_in_response = PNone,
      include_detailed_scan = PNone,
      account_number_details = [(FStr ''Main'', FStr ''123456789'')],
      response_code_details =
        [(FStr ''Dispatched'', FStr ''Processing''), (FStr ''In Transit'', FStr ''In Transit''),
         (FStr ''Delivered'', FStr ''Delivered''), (FStr ''Canceled'', FStr ''Canceled''),
         (FStr ''Exception'', FStr ''Exception'')],
      error_code_details =
        [(FStr ''400'', FStr ''Error converting value'', FStr ''Exception''),
         (FStr ''401'', FStr ''Authorization Error: Incorrect API Key Send.'', FStr ''Exception''),
         (FStr ''500'', FStr ''No shipments found matching identifier type'', FStr ''DN Not Found'')],
      priority_base_url = ''https://api.priority1.com'',
      priority_tracking_url = ''/v2/ltl/shipments/status'',
      priority_api_key = PStr ''key-1'',
      shipment_identifier_type = PStr ''PURCHASE_ORDER''\<rparr>"

text \<open>A Delivery Note that was never polled, and the same one with a tracking number.\<close>

definition example_dn :: delivery_note where
  "example_dn =
     \<lparr>dn_name = ''DN-0001'', tracking_number = PNone, custom_tracking = PNone,
      custom_tracking_code = PNone, custom_last_api_call = None,
      custom_last_date_for_processing_status = None, custom_incident_first_date = None,
      custom_tracking_details = [], posting_date = 20390, set_warehouse = PStr ''Main''\<rparr>"

definition example_dn_tracked :: delivery_note where
  "example_dn_tracked = example_dn\<lparr>tracking_number := PStr ''1Z999AA10123456784''\<rparr>"

text \<open>UPS answers: a package, a shipment with packages, a shipment with a warning.\<close>

definition ups_package :: "string \<Rightarrow> string \<Rightarrow> pyval" where
  "ups_package tid code =
     PDict [(''trackingNumber'', PStr tid),
            (''currentStatus'', PDict [(''code'', PStr code), (''description'', PStr ''n/a'')]),
            (''activity'', PList [PDict [(''status'', PDict [(''statusCode'', PStr code)])]])]"

definition ups_result :: "pyval list \<Rightarrow> pyval" where
  "ups_result packages =
     PDict [(''trackResponse'', PDict [(''shipment'', PList [PDict [(''package'', PList packages)]])])]"

definition ups_warning_result :: pyval where
  "ups_warning_result =
     PDict [(''trackResponse'', PDict [(''shipment'', PList
        [PDict [(''warnings'', PList [PDict [(''code'', PStr ''TW0001''),
                                             (''message'', PStr ''Tracking Information Not Found'')]])]])])]"

text \<open>FedEx answers: one complete track result with one entry of \<open>trackResults\<close>.\<close>

definition fedex_result :: "string \<Rightarrow> (string \<times> pyval) list \<Rightarrow> pyval" where
  "fedex_result tn entry =
     PDict [(''output'', PDict [(''completeTrackResults'', PList
        [PDict [(''trackingNumber'', PStr tn), (''trackResults'', PList [PDict entry])]])])]"

text \<open>A Priority answer with one shipment.\<close>

definition priority_result :: "int \<Rightarrow> string \<Rightarrow> pyval" where
  "priority_result sid st = PDict [(''shipments'', PList [PDict [(''id'', PInt sid), (''status'', PStr st)]])]"


definition http_unauthorized :: "request \<Rightarrow> http_outcome" where
  "http_unauthorized rq = HttpResponse 401 ''Unauthorized''"

definition http_empty_500 :: "request \<Rightarrow> http_outcome" where
  "http_empty_500 rq = HttpResponse 500 []"

section \<open>Outcomes\<close>

text \<open>
  The changes that one call of a handler makes to the Delivery Note, as a value: the
  fields it assigns (\<open>None\<close>: not assigned), whether it stamps
  \<open>custom_last_api_call\<close>, whether it applies the rule for the date of the first
  \<open>Processing\<close>, whether it sets the incident date when that is empty, and the rows
  it appends to the child table.
\<close>

record outcome =
  new_tracking_number :: "pyval option"
  new_code :: "pyval option"
  new_status :: "pyval option"
  stamp :: bool
  processing :: bool
  incident :: bool
  new_rows :: "(pyval \<times> pyval \<times> pyval) list"

text \<open>A date that is set to today only when it is empty.\<close>

definition set_if_absent :: "env \<Rightarrow> int option \<Rightarrow> int option" where
  "set_if_absent e old = (case old of None \<Rightarrow> Some (today e) | Some t \<Rightarrow> Some t)"

text \<open>Writing an outcome to a document.\<close>

definition apply_outcome :: "env \<Rightarrow> outcome \<Rightarrow> delivery_note \<Rightarrow> delivery_note" where
  "apply_outcome e u d =
     d\<lparr>tracking_number := (case new_tracking_number u of None \<Rightarrow> tracking_number d | Some v \<Rightarrow> v),
       custom_tracking_code := (case new_code u of None \<Rightarrow> custom_tracking_code d | Some v \<Rightarrow> v),
       custom_tracking := (case new_status u of None \<Rightarrow> custom_tracking d | Some v \<Rightarrow> v),
       custom_last_api_call := (if stamp u then Some (now e) else custom_last_api_call d),
       custom_last_date_for_processing_status :=
         (if processing u
          then (if new_status u = Some (PStr ''Processing'')
                then set_if_absent e (custom_last_date_for_processing_status d) else None)
          else custom_last_date_for_processing_status d),
       custom_incident_first_date :=
         (if incident u then set_if_absent e (custom_incident_first_date d)
          else custom_incident_first_date d),
       custom_tracking_details := custom_tracking_details d @ new_rows u\<rparr>"

definition no_change :: outcome where
  "no_change = \<lparr>new_tracking_number = None, new_code = None, new_status = None, stamp = False,
                processing = False, incident = False, new_rows = []\<rparr>"

text \<open>
  A computation on the document is \<open>uniform\<close> when the exception it ends with and
  the outcome it writes do not depend on the document it is given, and the pair
  satisfies \<open>P\<close>; \<open>uniform_run\<close> says the same of a whole handler.
\<close>

definition uniform :: "env \<Rightarrow> (exn option \<Rightarrow> outcome \<Rightarrow> bool) \<Rightarrow> (delivery_note \<Rightarrow> exn + run) \<Rightarrow> bool" where
  "uniform e P F = (\<exists>x u. P x u \<and> (\<forall>doc. finish doc (F doc) = (x, apply_outcome e u doc)))"

definition uniform_run :: "env \<Rightarrow> (exn option \<Rightarrow> outcome \<Rightarrow> bool) \<Rightarrow> (delivery_note \<Rightarrow> run) \<Rightarrow> bool" where
  "uniform_run e P H = (\<exists>x u. P x u \<and> (\<forall>doc. H doc = (x, apply_outcome e u doc)))"

text \<open>
  What every handler respects: it stamps \<open>custom_last_api_call\<close> only when no
  exception escapes, \<open>error\<close> is falsy and both the status and the status code
  are assigned; the date rule is applied exactly by the stamping outcomes of the handler
  for which \<open>proc\<close> holds.
\<close>

definition writes :: "bool \<Rightarrow> api_error \<Rightarrow> exn option \<Rightarrow> outcome \<Rightarrow> bool" where
  "writes proc error x u =
     ((stamp u \<longrightarrow> x = None \<and> \<not> err_truthy error \<and> new_status u \<noteq> None \<and> new_code u \<noteq> None)
      \<and> processing u = (proc \<and> stamp u))"

section \<open>Auxiliary facts\<close>

lemma py_eq_PNone: "py_eq v PNone = (v = PNone)"
  by (cases v) (simp_all add: py_eq_def)

lemma py_eq_PStr: "py_eq v (PStr t) = (v = PStr t)"
  by (cases v) (simp_all add: py_eq_def)

lemma str_int_500: "str_int 500 = ''500''"
  by (simp add: str_int_def)

lemma apply_no_change: "apply_outcome e no_change d = d"
  by (simp add: apply_outcome_def no_change_def)

lemma uniform_raise: "P (Some x) no_change \<Longrightarrow> uniform e P (\<lambda>doc. Inl x)"
  unfolding uniform_def by (rule exI[of _ "Some x"], rule exI[of _ no_change]) (simp add: finish_def apply_no_change)

lemma uniform_bind:
  assumes "\<And>x. m = Inl x \<Longrightarrow> P (Some x) no_change"
    and "\<And>v. m = Inr v \<Longrightarrow> uniform e P (F v)"
  shows "uniform e P (\<lambda>doc. ebind m (\<lambda>v. F v doc))"
proof (cases m)
  case (Inl x)
  with assms(1) uniform_raise[of P x e] show ?thesis by (simp add: ebind_def)
next
  case (Inr v)
  with assms(2) show ?thesis by (simp add: ebind_def)
qed

lemma uniform_if:
  assumes "c \<Longrightarrow> uniform e P A" and "\<not> c \<Longrightarrow> uniform e P B"
  shows "uniform e P (\<lambda>doc. if c then A doc else B doc)"
  using assms by (cases c) simp_all

lemma uniform_leaf:
  assumes "\<And>doc. D doc = apply_outcome e u doc" and "P x u"
  shows "uniform e P (\<lambda>doc. Inr (x, D doc))"
  unfolding uniform_def using assms by (intro exI[of _ x] exI[of _ u]) (simp add: finish_def)

lemma uniform_same: "P None no_change \<Longrightarrow> uniform e P (\<lambda>doc. Inr (None, doc))"
  by (rule uniform_leaf[where u = no_change]) (simp_all add: apply_no_change)



lemma uniform_run_finish: "uniform e P F \<Longrightarrow> uniform_run e P (\<lambda>doc. finish doc (F doc))"
  by (simp add: uniform_def uniform_run_def)

lemma uniform_run_if:
  assumes "c \<Longrightarrow> uniform_run e P A" and "\<not> c \<Longrightarrow> uniform_run e P B"
  shows "uniform_run e P (\<lambda>doc. if c then A doc else B doc)"
  using assms by (cases c) simp_all

lemma uniform_run_leaf:
  assumes "\<And>doc. D doc = apply_outcome e u doc" and "P x u"
  shows "uniform_run e P (\<lambda>doc. (x, D doc))"
  unfolding uniform_run_def using assms by (intro exI[of _ x] exI[of _ u]) simp

lemma fedex_status_and_date_bind:
  "ebind (fedex_status_and_date e m r0 d) (\<lambda>d'. Inr (None, d'))
   = ebind (fedex_code_and_status m r0) (\<lambda>cs.
       Inr (None, d\<lparr>custom_tracking_code := fst cs,
               custom_tracking := snd cs,
               custom_last_date_for_processing_status :=
                 (if py_eq (snd cs) (PStr ''Processing'')
                     \<and> custom_last_date_for_processing_status d = None
                  then Some (today e)
                  else if \<not> py_eq (snd cs) (PStr ''Processing'') then None
                  else custom_last_date_for_processing_status d)\<rparr>))"
  by (simp add: fedex_status_and_date_def ebind_def split: sum.splits)

lemma writes_no_change [simp]: "writes proc error x no_change"
  by (simp add: writes_def no_change_def)

lemma no_change_rows [simp]: "new_rows no_change = []"
  by (simp add: no_change_def)

lemma fedex_shape:
  "uniform_run e (\<lambda>x u. writes True error x u \<and> new_rows u = [])
     (\<lambda>doc. update_delivery_note_with_fedex_details e s doc response error api_type)"
  unfolding update_delivery_note_with_fedex_details_def Let_def fedex_status_and_date_bind
  apply (rule uniform_run_finish)
  apply (intro uniform_if uniform_bind uniform_same; (simp; fail)?)
  subgoal for parsed
    by (rule uniform_leaf[where u = "no_change\<lparr>new_status := Some (PStr ''Exception'')\<rparr>"])
       (simp_all add: apply_outcome_def no_change_def writes_def)
  subgoal for outp ctr track_results r0 has_status err code status
    by (rule uniform_leaf[where u = "no_change\<lparr>new_code := Some code, new_status := Some status\<rparr>"])
       (simp_all add: apply_outcome_def no_change_def writes_def)
  subgoal for outp ctr track_results r0 has_status tn cs
    by (rule uniform_leaf[where u = "no_change\<lparr>new_tracking_number := Some tn,
          new_code := Some (fst cs), new_status := Some (snd cs), stamp := True, processing := True\<rparr>"])
       (auto simp add: apply_outcome_def no_change_def writes_def py_eq_PStr set_if_absent_def
          split: option.splits)
  subgoal for outp ctr track_results r0 has_status cs
    by (rule uniform_leaf[where u = "no_change\<lparr>
          new_code := Some (fst cs), new_status := Some (snd cs), stamp := True, processing := True\<rparr>"])
       (auto simp add: apply_outcome_def no_change_def writes_def py_eq_PStr set_if_absent_def
          split: option.splits)
  done

lemma uniform_case_error:
  assumes "\<And>c n. error = ErrDict c n \<Longrightarrow> uniform e P (A c n)"
    and "(\<And>c n. error \<noteq> ErrDict c n) \<Longrightarrow> uniform e P B"
  shows "uniform e P (\<lambda>doc. case error of ErrDict c n \<Rightarrow> A c n doc | _ \<Rightarrow> B doc)"
  using assms by (cases error) simp_all

lemma priority_shape:
  "uniform_run e (\<lambda>x u. writes False error x u \<and> new_rows u = [])
     (\<lambda>doc. update_delivery_note_with_priority_details e s doc response error)"
  unfolding update_delivery_note_with_priority_details_def Let_def
  apply (rule uniform_run_finish)
  apply (intro uniform_if uniform_case_error uniform_bind uniform_same; (simp; fail)?)
  subgoal for c n desc status
    by (rule uniform_leaf[where u = "no_change\<lparr>new_status := Some status\<rparr>"])
       (simp_all add: apply_outcome_def no_change_def writes_def)
  subgoal for c n desc status
    by (rule uniform_leaf[where u = "no_change\<lparr>new_status := Some status, incident := (n = 500)\<rparr>"])
       (auto simp add: apply_outcome_def no_change_def writes_def set_if_absent_def split: option.splits)
  subgoal
    by (rule uniform_leaf[where u = "no_change\<lparr>new_status := Some (PStr ''Exception'')\<rparr>"])
       (simp_all add: apply_outcome_def no_change_def writes_def)
  subgoal for shipments track_results tid st status
    by (rule uniform_leaf[where u = "no_change\<lparr>new_tracking_number := Some tid,
          new_code := Some (PStr ''200''), new_status := Some status, stamp := True\<rparr>"])
       (simp_all add: apply_outcome_def no_change_def writes_def)
  done

lemma append_tracking_details_prefix:
  "append_tracking_details e m ps (rows0 @ rows)
   = (case append_tracking_details e m ps rows of Inl x \<Rightarrow> Inl x | Inr r \<Rightarrow> Inr (rows0 @ r))"
  by (induction ps arbitrary: rows) (simp_all add: ebind_def split: sum.splits)

lemma append_tracking_details_bind:
  "ebind (append_tracking_details e m ps rows) G
   = ebind (append_tracking_details e m ps []) (\<lambda>new. G (rows @ new))"
  using append_tracking_details_prefix[of e m ps rows "[]"]
  by (simp add: ebind_def split: sum.splits)

lemma case_run_saved:
  "(case m of Inl x \<Rightarrow> Inr (Some x, s) | Inr v \<Rightarrow> Inr (None, s))
   = Inr (case m of Inl x \<Rightarrow> Some x | Inr v \<Rightarrow> None, s)"
  by (cases m) simp_all

lemma ups_shape:
  "uniform_run e (\<lambda>x u. writes False error x u \<and> (tracking_method \<noteq> ''By Reference'' \<longrightarrow> new_rows u = []))
     (\<lambda>doc. set_data_in_delivery_note e s doc result error tracking_method)"
  unfolding set_data_in_delivery_note_def Let_def case_run_saved
  apply (subst append_tracking_details_bind)
  apply (rule uniform_run_if)
  subgoal
    by (rule uniform_run_leaf[where u = "no_change\<lparr>new_status := Some (PStr ''ERPNext Exception'')\<rparr>"])
       (simp_all add: apply_outcome_def no_change_def writes_def)
  apply (rule uniform_run_finish)
  apply (intro uniform_if uniform_bind uniform_same; (simp; fail)?)
  subgoal
    by (rule uniform_leaf[where u = "no_change\<lparr>new_status := Some (PStr ''DN Not Found In UPS'')\<rparr>"])
       (simp_all add: apply_outcome_def no_change_def writes_def)
  subgoal for shipment has_warnings packages n p0 tid code ps new
    by (rule uniform_leaf[where u = "no_change\<lparr>new_tracking_number := Some tid,
          new_code := Some code,
          new_status := Some (parent_status (status_code_description s) (cint e code)),
          stamp := True, new_rows := new\<rparr>"])
       (simp_all add: apply_outcome_def no_change_def writes_def)
  subgoal for shipment has_warnings packages n p0 acts k a0 st sc descr
    by (rule uniform_leaf[where u = "no_change\<lparr>new_code := Some sc,
          new_status := Some (of_field descr), stamp := True\<rparr>"])
       (simp_all add: apply_outcome_def no_change_def writes_def)
  done

subsection \<open>The paths that save shipment data\<close>

lemma map_of_Some_nonempty: "map_of kvs k = Some v \<Longrightarrow> kvs \<noteq> []"
  by auto

lemma py_key_of_field: "py_key (of_field f) = of_field f"
  by (cases f) simp_all

lemma parent_status_fold:
  "fold (\<lambda>status acc. if py_eq (of_field (fst status)) (PInt c) then of_field (snd status) else acc) rows
     (case m (PInt c) of None \<Rightarrow> PStr [] | Some v \<Rightarrow> of_field v)
   = (case fold (\<lambda>row m. m(py_key (of_field (fst row)) \<mapsto> snd row)) rows m (PInt c) of
        None \<Rightarrow> PStr [] | Some v \<Rightarrow> of_field v)"
proof (induction rows arbitrary: m)
  case Nil
  show ?case by simp
next
  case (Cons row rows)
  have "(if py_eq (of_field (fst row)) (PInt c) then of_field (snd row)
         else (case m (PInt c) of None \<Rightarrow> PStr [] | Some v \<Rightarrow> of_field v))
        = (case (m(py_key (of_field (fst row)) \<mapsto> snd row)) (PInt c) of
             None \<Rightarrow> PStr [] | Some v \<Rightarrow> of_field v)"
    by (simp add: py_eq_def py_key_of_field)
  then show ?case using Cons.IH[of "m(py_key (of_field (fst row)) \<mapsto> snd row)"] by simp
qed

lemma parent_status_dict:
  "parent_status rows c
   = (case dict_of_rows rows (PInt c) of None \<Rightarrow> PStr [] | Some v \<Rightarrow> of_field v)"
  using parent_status_fold[of c rows Map.empty] by (simp add: parent_status_def dict_of_rows_def)

lemma append_tracking_details_registered:
  assumes "\<forall>p\<in>set ps. \<exists>t c v. py_getitem p ''trackingNumber'' = Inr t
             \<and> current_status_code p = Inr c \<and> m (PInt (cint e c)) = Some v"
  shows "\<exists>new. length new = length ps \<and> append_tracking_details e m ps rows = Inr (rows @ new)"
  using assms
proof (induction ps arbitrary: rows)
  case Nil
  show ?case by simp
next
  case (Cons p ps)
  then obtain t c v where p: "py_getitem p ''trackingNumber'' = Inr t"
    "current_status_code p = Inr c" "m (PInt (cint e c)) = Some v"
    by auto
  from Cons obtain new where "length new = length ps"
    "append_tracking_details e m ps (rows @ [(t, c, of_field v)]) = Inr ((rows @ [(t, c, of_field v)]) @ new)"
    by fastforce
  with p show ?case
    by (intro exI[of _ "(t, c, of_field v) # new"]) (simp add: ebind_def dict_item_def)
qed

lemma ups_by_reference_run:
  assumes "\<not> err_truthy error"
    and "map_of kvs ''trackResponse'' = Some (PDict tkvs)"
    and "map_of tkvs ''shipment'' = Some (PList (PDict skvs # rest))"
    and "map_of skvs ''warnings'' = None"
    and "map_of skvs ''package'' = Some (PList (p0 # ps))"
    and "py_getitem p0 ''trackingNumber'' = Inr tid"
    and "current_status_code p0 = Inr code"
    and "append_tracking_details e (dict_of_rows (status_code_description s)) (p0 # ps)
           (custom_tracking_details doc) = Inr rows"
  shows "set_data_in_delivery_note e s doc (PDict kvs) error ''By Reference''
         = (None, doc\<lparr>tracking_number := tid, custom_tracking_code := code,
                      custom_tracking := parent_status (status_code_description s) (cint e code),
                      custom_last_api_call := Some (now e),
                      custom_tracking_details := rows\<rparr>)"
  using assms
  by (simp add: set_data_in_delivery_note_def Let_def ups_shipment_def ebind_def finish_def
      del: append_tracking_details.simps)

lemma fedex_found_run:
  assumes "\<not> err_truthy error"
    and "map_of kvs ''output'' = Some (PDict okvs)"
    and "map_of okvs ''completeTrackResults'' = Some (PList (PDict tkvs # rest))"
    and "map_of tkvs ''trackResults'' = Some (PList (PDict rkvs # rest'))"
    and "map_of rkvs ''latestStatusDetail'' = Some lsd"
    and "fedex_code_and_status (dict_of_rows (tracking_code_description s)) (PDict rkvs)
           = Inr (code, status)"
  shows "update_delivery_note_with_fedex_details e s doc (PDict kvs) error (PStr ''By Reference'')
         = (None, doc\<lparr>custom_last_api_call := Some (now e),
                      tracking_number := dict_attr tkvs ''trackingNumber'',
                      custom_tracking_code := code, custom_tracking := status,
                      custom_last_date_for_processing_status :=
                        (if status = PStr ''Processing''
                         then set_if_absent e (custom_last_date_for_processing_status doc)
                         else None)\<rparr>)"
    and "update_delivery_note_with_fedex_details e s doc (PDict kvs) error (PStr ''By Tracking ID'')
         = (None, doc\<lparr>custom_last_api_call := Some (now e),
                      custom_tracking_code := code, custom_tracking := status,
                      custom_last_date_for_processing_status :=
                        (if status = PStr ''Processing''
                         then set_if_absent e (custom_last_date_for_processing_status doc)
                         else None)\<rparr>)"
proof -
  have ne: "kvs \<noteq> []" "okvs \<noteq> []" "tkvs \<noteq> []"
    using assms(2-4) by (auto dest: map_of_Some_nonempty)
  show "update_delivery_note_with_fedex_details e s doc (PDict kvs) error (PStr ''By Reference'')
         = (None, doc\<lparr>custom_last_api_call := Some (now e),
                      tracking_number := dict_attr tkvs ''trackingNumber'',
                      custom_tracking_code := code, custom_tracking := status,
                      custom_last_date_for_processing_status :=
                        (if status = PStr ''Processing''
                         then set_if_absent e (custom_last_date_for_processing_status doc)
                         else None)\<rparr>)"
    using assms ne
    by (auto simp add: update_delivery_note_with_fedex_details_def Let_def ebind_def finish_def
        first_track_result_def fedex_status_and_date_def py_eq_PStr dict_attr_def
        set_if_absent_def split: option.splits)
  show "update_delivery_note_with_fedex_details e s doc (PDict kvs) error (PStr ''By Tracking ID'')
         = (None, doc\<lparr>custom_last_api_call := Some (now e),
                      custom_tracking_code := code, custom_tracking := status,
                      custom_last_date_for_processing_status :=
                        (if status = PStr ''Processing''
                         then set_if_absent e (custom_last_date_for_processing_status doc)
                         else None)\<rparr>)"
    using assms ne
    by (auto simp add: update_delivery_note_with_fedex_details_def Let_def ebind_def finish_def
        first_track_result_def fedex_status_and_date_def py_eq_PStr dict_attr_def
        set_if_absent_def split: option.splits)
qed

lemma py_get_dict: "py_get (PDict kvs) k = Inr (dict_attr kvs k)"
  by (simp add: dict_attr_def split: option.splits)

lemma fedex_code_and_status_dict:
  assumes "map_of rkvs ''latestStatusDetail'' = Some (PDict lkvs)"
    and "hashable (dict_attr rkvs ''statusCode'')"
  shows "fedex_code_and_status m (PDict rkvs)
         = Inr (dict_attr lkvs ''code'',
                (case m (py_key (dict_attr rkvs ''statusCode'')) of
                   None \<Rightarrow> dict_attr lkvs ''description''
                 | Some v \<Rightarrow> py_or (of_field v) (dict_attr lkvs ''description'')))"
proof -
  have l: "dict_attr rkvs ''latestStatusDetail'' = PDict lkvs"
    using assms(1) by (simp add: dict_attr_def)
  show ?thesis
    using assms(2)
    by (simp add: fedex_code_and_status_def ebind_def py_get_dict l table_get_def dict_get_def
        py_or_def del: py_get.simps split: option.splits)
qed

lemma priority_found_run:
  assumes "\<not> err_truthy error"
    and "map_of kvs ''shipments'' = Some (PList (PDict tkvs # rest))"
    and "tkvs \<noteq> []"
    and "hashable (dict_attr tkvs ''status'')"
  shows "update_delivery_note_with_priority_details e s doc (PDict kvs) error
         = (None, doc\<lparr>tracking_number := dict_attr tkvs ''id'',
                      custom_tracking_code := PStr ''200'',
                      custom_tracking :=
                        (case dict_of_rows (response_code_details s) (py_key (dict_attr tkvs ''status'')) of
                           None \<Rightarrow> PNone | Some v \<Rightarrow> of_field v),
                      custom_last_api_call := Some (now e)\<rparr>)"
proof -
  have "kvs \<noteq> []" using assms(2) by (auto dest: map_of_Some_nonempty)
  with assms show ?thesis
    by (simp add: update_delivery_note_with_priority_details_def Let_def ebind_def finish_def
        table_get_def dict_get_def dict_attr_def split: option.splits)
qed

section \<open>The claims\<close>

text \<open>
  C9. A Priority poll that the carrier answers with HTTP 500, while the error table has
  an entry for \<open>500\<close> whose status is \<open>DN Not Found\<close>, saves the status
  \<open>DN Not Found\<close> and sets \<open>custom_incident_first_date\<close> to today exactly when
  it was empty; a date that is already there stays.
\<close>

theorem priority_500_dn_not_found:
  assumes reg: "dict_of_rows (error_code_details s) (PStr ''500'') = Some (descr, FStr ''DN Not Found'')"
    and http: "http (priority_tracking_request s (PriorityIntegration e s c) dn) = HttpResponse 500 content"
  shows "fetch_priority_tracking_details e s c http dn doc
         = (None, doc\<lparr>custom_tracking := PStr ''DN Not Found'',
                      custom_incident_first_date :=
                        (case custom_incident_first_date doc of
                           None \<Rightarrow> Some (today e) | Some d \<Rightarrow> Some d)\<rparr>)"
  using reg http
  by (simp add: fetch_priority_tracking_details_def priority_make_api_request_def
      update_delivery_note_with_priority_details_def Let_def str_int_500 dict_get_def
      ebind_def jammy_of_desc_def finish_def split: option.split)

theorem priority_500_dn_not_found_witness:
  "dict_of_rows (error_code_details example_settings) (PStr ''500'')
     = Some (FStr ''No shipments found matching identifier type'', FStr ''DN Not Found'')
   \<and> http_empty_500
         (priority_tracking_request example_settings
            (PriorityIntegration example_env example_settings Map.empty) ''DN-0001'')
       = HttpResponse 500 []
   \<and> fetch_priority_tracking_details example_env example_settings Map.empty http_empty_500
         ''DN-0001'' example_dn
       = (None, example_dn\<lparr>custom_tracking := PStr ''DN Not Found'',
                            custom_incident_first_date := Some 20396\<rparr>)
   \<and> fetch_priority_tracking_details example_env example_settings Map.empty http_empty_500
         ''DN-0001'' (example_dn\<lparr>custom_incident_first_date := Some 20390\<rparr>)
       = (None, example_dn\<lparr>custom_incident_first_date := Some 20390,
                            custom_tracking := PStr ''DN Not Found''\<rparr>)"
proof -
  have reg: "dict_of_rows (error_code_details example_settings) (PStr ''500'')
     = Some (FStr ''No shipments found matching identifier type'', FStr ''DN Not Found'')"
    by (simp add: example_settings_def dict_of_rows_def)
  have http: "http_empty_500
         (priority_tracking_request example_settings
            (PriorityIntegration example_env example_settings Map.empty) ''DN-0001'')
       = HttpResponse 500 []"
    by (simp add: http_empty_500_def)
  show ?thesis
    using reg http
      priority_500_dn_not_found
        [where http = http_empty_500 and e = example_env and s = example_settings
           and c = Map.empty and dn = "''DN-0001''" and doc = example_dn, OF reg http]
      priority_500_dn_not_found
        [where http = http_empty_500 and e = example_env and s = example_settings
           and c = Map.empty and dn = "''DN-0001''"
           and doc = "example_dn\<lparr>custom_incident_first_date := Some 20390\<rparr>", OF reg http]
    by (simp add: example_dn_def example_env_def)
qed

text \<open>
  C10. The test on \<open>tracking_number\<close> is a comparison with \<open>None\<close>, not a test
  for a non-empty value: a Delivery Note whose tracking number is the empty string is
  looked up \<open>By Tracking ID\<close>, by UPS with nothing after the inquiry path of the URL
  and by FedEx with the empty string as \<open>trackingNumber\<close>, and the handler runs with
  that method.
\<close>

theorem empty_tracking_number_is_looked_up_by_tracking_id:
  "snd (ups_tracking_request e s cl dn (doc\<lparr>tracking_number := PStr []\<rparr>)) = ''By Tracking ID''
   \<and> url (fst (ups_tracking_request e s cl dn (doc\<lparr>tracking_number := PStr []\<rparr>)))
       = ups_server_url s @ track_by_inquiry_number_url s @ []
   \<and> snd (fedex_tracking_request e s cl dn (doc\<lparr>tracking_number := PStr []\<rparr>))
       = PStr ''By Tracking ID''
   \<and> py_getitem (json_data (fst (fedex_tracking_request e s cl dn (doc\<lparr>tracking_number := PStr []\<rparr>))))
         ''trackingInfo''
       = Inr (PList [PDict [(''trackingNumberInfo'', PDict [(''trackingNumber'', PStr [])])]])
   \<and> get_ups_tracking_data e s c issued http dn (doc\<lparr>tracking_number := PStr []\<rparr>)
       = (let ra = make_api_request e [200]
                     (http (fst (ups_tracking_request e s (UPSClient e c issued) dn
                                   (doc\<lparr>tracking_number := PStr []\<rparr>))))
          in set_data_in_delivery_note e s (doc\<lparr>tracking_number := PStr []\<rparr>)
               (fst ra) (snd ra) ''By Tracking ID'')
   \<and> fetch_fedex_tracking_details e s c issued http dn (doc\<lparr>tracking_number := PStr []\<rparr>)
       = (let ra = make_api_request e [200, 201]
                     (http (fst (fedex_tracking_request e s (FedExIntegration e c issued) dn
                                   (doc\<lparr>tracking_number := PStr []\<rparr>))))
          in update_delivery_note_with_fedex_details e s (doc\<lparr>tracking_number := PStr []\<rparr>)
               (fst ra) (snd ra) (PStr ''By Tracking ID''))"
  by (simp add: ups_tracking_request_def fedex_tracking_request_def get_ups_tracking_data_def
      fetch_fedex_tracking_details_def py_eq_PNone Let_def)

theorem empty_tracking_number_is_looked_up_by_tracking_id_witness:
  "ups_tracking_request example_env example_settings (UPSClient example_env Map.empty None)
      ''DN-0001'' (example_dn\<lparr>tracking_number := PStr []\<rparr>)
    = (\<lparr>url = ''https://onlinetools.ups.com/api/track/v1/details/'',
        req_headers = [(''Authorization'', PStr ''Bearer None''),
                       (''transId'', PStr ''6f1c2b1e-0000-4000-8000-000000000001''),
                       (''transactionSrc'', PStr ''erpnext'')],
        params = [(''locale'', PStr ''en_US''), (''returnSignature'', PStr ''false''),
                  (''returnMilestones'', PStr ''false''), (''returnPOD'', PStr ''false'')],
        json_data = PDict []\<rparr>,
       ''By Tracking ID'')"
  using empty_tracking_number_is_looked_up_by_tracking_id
          [of example_env example_settings "UPSClient example_env Map.empty None" "''DN-0001''"
              example_dn]
  by (simp add: ups_tracking_request_def py_eq_PNone example_settings_def example_env_def
      UPSClient_def cache_get_value_def ups_get_auth_token_def Let_def)

text \<open>
  C6 as stated fails for Priority: for a Delivery Note with a tracking number, the
  request still identifies the shipment by the name of the Delivery Note.
\<close>

theorem priority_lookup_ignores_tracking_number:
  "tracking_number example_dn_tracked \<noteq> PNone
   \<and> priority_tracking_request example_settings
         (PriorityIntegration example_env example_settings Map.empty) (dn_name example_dn_tracked)
       = \<lparr>url = ''https://api.priority1.com/v2/ltl/shipments/status'',
          req_headers = [(''X-API-KEY'', PStr ''key-1''), (''Content-Type'', PStr ''application/json'')],
          params = [],
          json_data = PDict [(''identifierType'', PStr ''PURCHASE_ORDER''),
                             (''identifierValue'', PStr ''DN-0001'')]\<rparr>"
  by (simp add: example_dn_tracked_def example_dn_def priority_tracking_request_def
      example_settings_def PriorityIntegration_def cache_get_value_def
      priority_get_auth_token_def Let_def)

text \<open>
  C6. The lookup mode is decided once, from \<open>tracking_number\<close>, by UPS and FedEx:
  \<open>By Tracking ID\<close> exactly when the tracking number is not \<open>None\<close>, \<open>By
  Reference\<close> otherwise; the handler runs with the mode the request was built with,
  and a request by reference carries a date window and a reference type from the
  settings (UPS: from \<open>today - check_no_of_days_api\<close> to today and
  \<open>ref_number_type\<close>; FedEx: from two days before the posting date to
  \<open>check_for_no_of_days\<close> after it and \<open>reference_type\<close>, or
  \<open>SHIPPER_REFERENCE\<close> when that is not set). Priority has no lookup mode: whatever
  the tracking number is, its request identifies the shipment by the name of the
  Delivery Note and carries no date window, as the example preceding the theorem shows.
\<close>

theorem lookup_mode_follows_tracking_number:
  "(snd (ups_tracking_request e s cl dn doc) = ''By Tracking ID'') = (tracking_number doc \<noteq> PNone)
   \<and> (snd (ups_tracking_request e s cl dn doc) = ''By Reference'') = (tracking_number doc = PNone)
   \<and> (snd (fedex_tracking_request e s cl dn doc) = PStr ''By Tracking ID'')
       = (tracking_number doc \<noteq> PNone)
   \<and> (snd (fedex_tracking_request e s cl dn doc) = PStr ''By Reference'')
       = (tracking_number doc = PNone)
   \<and> get_ups_tracking_data e s c issued http dn doc
       = (let rq = ups_tracking_request e s (UPSClient e c issued) dn doc;
              ra = make_api_request e [200] (http (fst rq))
          in set_data_in_delivery_note e s doc (fst ra) (snd ra)
               (if tracking_number doc = PNone then ''By Reference'' else ''By Tracking ID''))
   \<and> fetch_fedex_tracking_details e s c issued http dn doc
       = (let rq = fedex_tracking_request e s (FedExIntegration e c issued) dn doc;
              ra = make_api_request e [200, 201] (http (fst rq))
          in update_delivery_note_with_fedex_details e s doc (fst ra) (snd ra)
               (PStr (if tracking_number doc = PNone then ''By Reference'' else ''By Tracking ID'')))
   \<and> (tracking_number doc = PNone \<longrightarrow>
        params (fst (ups_tracking_request e s cl dn doc))
          = [(''locale'', PStr (ups_locale s)),
             (''fromPickUpDate'', PStr (strftime e ''%Y%m%d'' (today e - check_no_of_days_api s))),
             (''toPickUpDate'', PStr (strftime e ''%Y%m%d'' (today e))),
             (''refNumType'', PStr (ref_number_type s))]
        \<and> py_getitem (json_data (fst (fedex_tracking_request e s cl dn doc))) ''referencesInformation''
          = Inr (PDict
              [(''type'', py_or (reference_type s) (PStr ''SHIPPER_REFERENCE'')),
               (''value'', PStr dn),
               (''accountNumber'', find_account_number (account_number_details s) (set_warehouse doc)),
               (''carrierCode'', PStr ''FXFR''),
               (''shipDateBegin'', PStr (strftime e ''%Y-%m-%d'' (posting_date doc - 2))),
               (''shipDateEnd'',
                  PStr (strftime e ''%Y-%m-%d'' (posting_date doc + check_for_no_of_days s)))]))"
  by (simp add: ups_tracking_request_def fedex_tracking_request_def get_ups_tracking_data_def
      fetch_fedex_tracking_details_def py_eq_PNone Let_def)

theorem lookup_mode_follows_tracking_number_witness:
  "tracking_number example_dn = PNone
   \<and> snd (ups_tracking_request example_env example_settings
             (UPSClient example_env Map.empty None) ''DN-0001'' example_dn) = ''By Reference''
   \<and> params (fst (ups_tracking_request example_env example_settings
             (UPSClient example_env Map.empty None) ''DN-0001'' example_dn))
       = [(''locale'', PStr ''en_US''), (''fromPickUpDate'', PStr ''20366''),
          (''toPickUpDate'', PStr ''20396''), (''refNumType'', PStr ''SmallPackage'')]
   \<and> snd (fedex_tracking_request example_env example_settings
             (FedExIntegration example_env Map.empty None) ''DN-0001'' example_dn_tracked)
       = PStr ''By Tracking ID''"
proof -
  have h: "tracking_number example_dn = PNone" by (simp add: example_dn_def)
  have t: "tracking_number example_dn_tracked \<noteq> PNone"
    by (simp add: example_dn_tracked_def example_dn_def)
  show ?thesis
    using h t
      lookup_mode_follows_tracking_number
        [of example_env example_settings "UPSClient example_env Map.empty None" "''DN-0001''"
            example_dn]
      lookup_mode_follows_tracking_number
        [of example_env example_settings "FedExIntegration example_env Map.empty None"
            "''DN-0001''" example_dn_tracked]
    by (simp add: example_env_def example_settings_def str_int_def)
qed

text \<open>
  C7. The FedEx handler does not do what the claim says. When the carrier answers with
  a status other than 200 and 201 and a body that is empty or is not JSON, the handler's
  \<open>json.loads(error)\<close> raises (\<open>TypeError\<close> on the tuple built for an empty
  body, \<open>JSONDecodeError\<close> on a text that is not JSON) before the status
  \<open>Exception\<close> is assigned: the exception escapes and the Delivery Note is not
  saved. The UPS and Priority handlers pass the same errors on without decoding them.
\<close>

theorem fedex_unparseable_error_raises:
  assumes "status_code \<notin> {200, 201}"
    and "http (fst (fedex_tracking_request e s (FedExIntegration e c issued) dn doc))
           = HttpResponse status_code body"
    and "body = [] \<or> json_loads e body = None"
  shows "fetch_fedex_tracking_details e s c issued http dn doc
           = (Some (if body = [] then TypeError else JSONDecodeError), doc)"
  using assms
  by (auto simp add: fetch_fedex_tracking_details_def make_api_request_def
      update_delivery_note_with_fedex_details_def Let_def ebind_def finish_def)

theorem fedex_unparseable_error_raises_witness:
  "(500::int) \<notin> {200, 201}
   \<and> http_empty_500 (fst (fedex_tracking_request example_env example_settings
         (FedExIntegration example_env Map.empty None) ''DN-0001'' example_dn))
       = HttpResponse 500 []
   \<and> fetch_fedex_tracking_details example_env example_settings Map.empty None http_empty_500
         ''DN-0001'' example_dn
       = (Some TypeError, example_dn)
   \<and> json_loads example_env ''Unauthorized'' = None
   \<and> fetch_fedex_tracking_details example_env example_settings Map.empty None http_unauthorized
         ''DN-0001'' example_dn
       = (Some JSONDecodeError, example_dn)"
proof -
  have a: "(500::int) \<notin> {200, 201}" and a': "(401::int) \<notin> {200, 201}" by simp_all
  have b: "http_empty_500 (fst (fedex_tracking_request example_env example_settings
         (FedExIntegration example_env Map.empty None) ''DN-0001'' example_dn))
       = HttpResponse 500 []"
    by (simp add: http_empty_500_def)
  have b': "http_unauthorized (fst (fedex_tracking_request example_env example_settings
         (FedExIntegration example_env Map.empty None) ''DN-0001'' example_dn))
       = HttpResponse 401 ''Unauthorized''"
    by (simp add: http_unauthorized_def)
  have c: "[] = ([]::string) \<or> json_loads example_env [] = None" by simp
  have l: "json_loads example_env ''Unauthorized'' = None"
    by (simp add: example_env_def example_loads_def)
  then have c': "''Unauthorized'' = [] \<or> json_loads example_env ''Unauthorized'' = None" by simp
  show ?thesis
    using a b l
      fedex_unparseable_error_raises
        [where http = http_empty_500 and e = example_env and s = example_settings
           and c = Map.empty and issued = None and dn = "''DN-0001''" and doc = example_dn,
         OF a b c]
      fedex_unparseable_error_raises
        [where http = http_unauthorized and e = example_env and s = example_settings
           and c = Map.empty and issued = None and dn = "''DN-0001''" and doc = example_dn,
         OF a' b' c']
    by simp
qed








lemma apply_outcome_overwrites:
  "new_status u = Some st \<Longrightarrow> new_code u = Some c \<Longrightarrow>
   apply_outcome e u (d\<lparr>custom_tracking := a, custom_tracking_code := b\<rparr>) = apply_outcome e u d"
  by (cases "new_tracking_number u") (simp_all add: apply_outcome_def)

lemma stamp_cases:
  assumes "uniform_run e P H" and "\<And>x u. P x u \<Longrightarrow> writes proc error x u"
  shows "custom_last_api_call (snd (H doc)) = custom_last_api_call doc
       \<or> (custom_last_api_call (snd (H doc)) = Some (now e) \<and> fst (H doc) = None
          \<and> \<not> err_truthy error
          \<and> (\<forall>a b. snd (H (doc\<lparr>custom_tracking := a, custom_tracking_code := b\<rparr>)) = snd (H doc)))"
proof -
  from assms obtain x u where W: "writes proc error x u"
    and H: "\<And>d. H d = (x, apply_outcome e u d)"
    unfolding uniform_run_def by blast
  show ?thesis
  proof (cases "stamp u")
    case False
    then show ?thesis by (simp add: H apply_outcome_def)
  next
    case True
    with W obtain st c where "x = None" "\<not> err_truthy error" "new_status u = Some st" "new_code u = Some c"
      by (auto simp: writes_def)
    with True show ?thesis
      by (simp add: H apply_outcome_overwrites) (simp add: apply_outcome_def)
  qed
qed

lemma ups_by_reference_stamps:
  assumes "\<not> err_truthy error" "ups_shipment response = Inr shipment"
    "py_in_keys ''warnings'' shipment = Inr False"
    "py_getitem shipment ''package'' = Inr packages" "py_len packages = Inr n" "0 < n"
  shows "fst (set_data_in_delivery_note e s doc response error ''By Reference'') \<noteq> None
       \<or> custom_last_api_call (snd (set_data_in_delivery_note e s doc response error ''By Reference''))
           = Some (now e)"
  using assms
  by (simp add: set_data_in_delivery_note_def Let_def ebind_def finish_def
      del: append_tracking_details.simps split: sum.splits)

lemma ups_by_tracking_id_stamps:
  assumes "\<not> err_truthy error" "ups_shipment response = Inr shipment"
    "py_in_keys ''warnings'' shipment = Inr False"
    "py_getitem shipment ''package'' = Inr packages" "py_len packages = Inr n" "0 < n"
    "py_index0 packages = Inr p0" "py_getitem p0 ''activity'' = Inr activities"
    "py_len activities = Inr k" "0 < k"
  shows "fst (set_data_in_delivery_note e s doc response error ''By Tracking ID'') \<noteq> None
       \<or> custom_last_api_call (snd (set_data_in_delivery_note e s doc response error ''By Tracking ID''))
           = Some (now e)"
  using assms
  by (simp add: set_data_in_delivery_note_def Let_def ebind_def finish_def split: sum.splits)

lemma priority_found_stamps:
  assumes "\<not> err_truthy error" "truthy response" "py_get response ''shipments'' = Inr shipments"
    "truthy shipments" "py_index0 shipments = Inr first_shipment" "truthy first_shipment"
  shows "fst (update_delivery_note_with_priority_details e s doc response error) \<noteq> None
       \<or> custom_last_api_call (snd (update_delivery_note_with_priority_details e s doc response error))
           = Some (now e)"
  using assms
  by (simp add: update_delivery_note_with_priority_details_def Let_def ebind_def finish_def
      split: sum.splits)

lemma fedex_found_stamps:
  assumes "\<not> err_truthy error" "truthy response" "py_get response ''output'' = Inr outp"
    "truthy outp" "py_get outp ''completeTrackResults'' = Inr ctr" "truthy ctr"
    "py_index0 ctr = Inr track_results" "truthy track_results"
    "first_track_result track_results = Inr r0"
    "py_in_keys ''latestStatusDetail'' r0 = Inr True"
    "api_type = PStr ''By Reference'' \<or> api_type = PStr ''By Tracking ID''"
  shows "fst (update_delivery_note_with_fedex_details e s doc response error api_type) \<noteq> None
       \<or> custom_last_api_call (snd (update_delivery_note_with_fedex_details e s doc response error api_type))
           = Some (now e)"
  using assms(11)
proof
  assume a: "api_type = PStr ''By Reference''"
  show ?thesis
    unfolding a using assms(1-10)
    by (simp add: update_delivery_note_with_fedex_details_def Let_def ebind_def finish_def
        fedex_status_and_date_def py_eq_def split: sum.splits)
next
  assume a: "api_type = PStr ''By Tracking ID''"
  show ?thesis
    unfolding a using assms(1-10)
    by (simp add: update_delivery_note_with_fedex_details_def Let_def ebind_def finish_def
        fedex_status_and_date_def py_eq_def split: sum.splits)
qed

text \<open>
  C4 as stated fails: the UPS answer with \<open>warnings\<close> is a completion without a
  transport error that saves a status and leaves \<open>custom_last_api_call\<close> empty.
\<close>

theorem ups_warning_not_stamped_counterexample:
  "set_data_in_delivery_note example_env example_settings example_dn ups_warning_result ErrNone
      ''By Reference''
    = (None, example_dn\<lparr>custom_tracking := PStr ''DN Not Found In UPS''\<rparr>)
   \<and> custom_last_api_call (example_dn\<lparr>custom_tracking := PStr ''DN Not Found In UPS''\<rparr>) = None"
  by (simp add: set_data_in_delivery_note_def Let_def ups_warning_result_def
      ups_shipment_def ebind_def finish_def example_dn_def)

text \<open>
  C4. \<open>custom_last_api_call\<close> is written only by a run that ends without an
  exception and without a transport error, and then in the same save as the status and
  the status code: whatever the two held before, the saved document is the same. It is
  written by every run that ends without an exception on a path that saves shipment
  data: UPS \<open>By Reference\<close> with packages and no \<open>warnings\<close>, UPS \<open>By
  Tracking ID\<close> with packages and an activity of the first one, FedEx (either
  method) with a first result that has a \<open>latestStatusDetail\<close>, Priority with a
  first shipment. It is not written on a transport error, nor by the two outcomes that
  save a status after a 2xx answer without shipment data: the UPS answer with
  \<open>warnings\<close> (status \<open>DN Not Found In UPS\<close>, nothing else changed, as in
  the example preceding the theorem) and the FedEx answer whose first result has no
  \<open>latestStatusDetail\<close>.
\<close>

theorem last_api_call_written_with_status:
  "(custom_last_api_call (snd (set_data_in_delivery_note e s doc response error tracking_method))
      = custom_last_api_call doc
    \<or> (custom_last_api_call (snd (set_data_in_delivery_note e s doc response error tracking_method))
         = Some (now e)
       \<and> fst (set_data_in_delivery_note e s doc response error tracking_method) = None
       \<and> \<not> err_truthy error
       \<and> (\<forall>a b. snd (set_data_in_delivery_note e s
                       (doc\<lparr>custom_tracking := a, custom_tracking_code := b\<rparr>)
                       response error tracking_method)
                = snd (set_data_in_delivery_note e s doc response error tracking_method))))
   \<and> (custom_last_api_call (snd (update_delivery_note_with_fedex_details e s doc response error api_type))
      = custom_last_api_call doc
    \<or> (custom_last_api_call (snd (update_delivery_note_with_fedex_details e s doc response error api_type))
         = Some (now e)
       \<and> fst (update_delivery_note_with_fedex_details e s doc response error api_type) = None
       \<and> \<not> err_truthy error
       \<and> (\<forall>a b. snd (update_delivery_note_with_fedex_details e s
                       (doc\<lparr>custom_tracking := a, custom_tracking_code := b\<rparr>)
                       response error api_type)
                = snd (update_delivery_note_with_fedex_details e s doc response error api_type))))
   \<and> (custom_last_api_call (snd (update_delivery_note_with_priority_details e s doc response error))
      = custom_last_api_call doc
    \<or> (custom_last_api_call (snd (update_delivery_note_with_priority_details e s doc response error))
         = Some (now e)
       \<and> fst (update_delivery_note_with_priority_details e s doc response error) = None
       \<and> \<not> err_truthy error
       \<and> (\<forall>a b. snd (update_delivery_note_with_priority_details e s
                       (doc\<lparr>custom_tracking := a, custom_tracking_code := b\<rparr>) response error)
                = snd (update_delivery_note_with_priority_details e s doc response error))))
   \<and> (\<not> err_truthy error \<and> ups_shipment response = Inr shipment
        \<and> py_in_keys ''warnings'' shipment = Inr True \<longrightarrow>
       snd (set_data_in_delivery_note e s doc response error tracking_method)
         = doc\<lparr>custom_tracking := PStr ''DN Not Found In UPS''\<rparr>)
   \<and> (\<not> err_truthy error \<and> truthy response \<and> py_get response ''output'' = Inr outp
        \<and> truthy outp \<and> py_get outp ''completeTrackResults'' = Inr ctr \<and> truthy ctr
        \<and> py_index0 ctr = Inr track_results \<and> truthy track_results
        \<and> first_track_result track_results = Inr r0
        \<and> py_in_keys ''latestStatusDetail'' r0 = Inr False \<longrightarrow>
       custom_last_api_call (snd (update_delivery_note_with_fedex_details e s doc response error api_type))
         = custom_last_api_call doc)
   \<and> (\<not> err_truthy error \<and> ups_shipment response = Inr shipment
        \<and> py_in_keys ''warnings'' shipment = Inr False
        \<and> py_getitem shipment ''package'' = Inr packages \<and> py_len packages = Inr n \<and> 0 < n
        \<and> fst (set_data_in_delivery_note e s doc response error ''By Reference'') = None \<longrightarrow>
       custom_last_api_call (snd (set_data_in_delivery_note e s doc response error ''By Reference''))
         = Some (now e))
   \<and> (\<not> err_truthy error \<and> ups_shipment response = Inr shipment
        \<and> py_in_keys ''warnings'' shipment = Inr False
        \<and> py_getitem shipment ''package'' = Inr packages \<and> py_len packages = Inr n \<and> 0 < n
        \<and> py_index0 packages = Inr p0 \<and> py_getitem p0 ''activity'' = Inr activities
        \<and> py_len activities = Inr k \<and> 0 < k
        \<and> fst (set_data_in_delivery_note e s doc response error ''By Tracking ID'') = None \<longrightarrow>
       custom_last_api_call (snd (set_data_in_delivery_note e s doc response error ''By Tracking ID''))
         = Some (now e))
   \<and> (\<not> err_truthy error \<and> truthy response \<and> py_get response ''output'' = Inr outp
        \<and> truthy outp \<and> py_get outp ''completeTrackResults'' = Inr ctr \<and> truthy ctr
        \<and> py_index0 ctr = Inr track_results \<and> truthy track_results
        \<and> first_track_result track_results = Inr r0
        \<and> py_in_keys ''latestStatusDetail'' r0 = Inr True
        \<and> (api_type = PStr ''By Reference'' \<or> api_type = PStr ''By Tracking ID'')
        \<and> fst (update_delivery_note_with_fedex_details e s doc response error api_type) = None \<longrightarrow>
       custom_last_api_call (snd (update_delivery_note_with_fedex_details e s doc response error api_type))
         = Some (now e))
   \<and> (\<not> err_truthy error \<and> truthy response \<and> py_get response ''shipments'' = Inr shipments
        \<and> truthy shipments \<and> py_index0 shipments = Inr first_shipment \<and> truthy first_shipment
        \<and> fst (update_delivery_note_with_priority_details e s doc response error) = None \<longrightarrow>
       custom_last_api_call (snd (update_delivery_note_with_priority_details e s doc response error))
         = Some (now e))"
proof -
  have U: "custom_last_api_call (snd (set_data_in_delivery_note e s doc response error tracking_method))
      = custom_last_api_call doc
    \<or> (custom_last_api_call (snd (set_data_in_delivery_note e s doc response error tracking_method))
         = Some (now e)
       \<and> fst (set_data_in_delivery_note e s doc response error tracking_method) = None
       \<and> \<not> err_truthy error
       \<and> (\<forall>a b. snd (set_data_in_delivery_note e s
                       (doc\<lparr>custom_tracking := a, custom_tracking_code := b\<rparr>)
                       response error tracking_method)
                = snd (set_data_in_delivery_note e s doc response error tracking_method)))"
    by (rule stamp_cases[OF ups_shape, where proc = False]) simp
  have F: "custom_last_api_call (snd (update_delivery_note_with_fedex_details e s doc response error api_type))
      = custom_last_api_call doc
    \<or> (custom_last_api_call (snd (update_delivery_note_with_fedex_details e s doc response error api_type))
         = Some (now e)
       \<and> fst (update_delivery_note_with_fedex_details e s doc response error api_type) = None
       \<and> \<not> err_truthy error
       \<and> (\<forall>a b. snd (update_delivery_note_with_fedex_details e s
                       (doc\<lparr>custom_tracking := a, custom_tracking_code := b\<rparr>)
                       response error api_type)
                = snd (update_delivery_note_with_fedex_details e s doc response error api_type)))"
    by (rule stamp_cases[OF fedex_shape, where proc = True]) simp
  have P: "custom_last_api_call (snd (update_delivery_note_with_priority_details e s doc response error))
      = custom_last_api_call doc
    \<or> (custom_last_api_call (snd (update_delivery_note_with_priority_details e s doc response error))
         = Some (now e)
       \<and> fst (update_delivery_note_with_priority_details e s doc response error) = None
       \<and> \<not> err_truthy error
       \<and> (\<forall>a b. snd (update_delivery_note_with_priority_details e s
                       (doc\<lparr>custom_tracking := a, custom_tracking_code := b\<rparr>) response error)
                = snd (update_delivery_note_with_priority_details e s doc response error)))"
    by (rule stamp_cases[OF priority_shape, where proc = False]) simp
  have W: "\<not> err_truthy error \<and> ups_shipment response = Inr shipment
        \<and> py_in_keys ''warnings'' shipment = Inr True \<longrightarrow>
       snd (set_data_in_delivery_note e s doc response error tracking_method)
         = doc\<lparr>custom_tracking := PStr ''DN Not Found In UPS''\<rparr>"
    by (simp add: set_data_in_delivery_note_def Let_def ebind_def finish_def split: sum.splits)
  have E: "\<not> err_truthy error \<and> truthy response \<and> py_get response ''output'' = Inr outp
        \<and> truthy outp \<and> py_get outp ''completeTrackResults'' = Inr ctr \<and> truthy ctr
        \<and> py_index0 ctr = Inr track_results \<and> truthy track_results
        \<and> first_track_result track_results = Inr r0
        \<and> py_in_keys ''latestStatusDetail'' r0 = Inr False \<longrightarrow>
       custom_last_api_call (snd (update_delivery_note_with_fedex_details e s doc response error api_type))
         = custom_last_api_call doc"
    by (simp add: update_delivery_note_with_fedex_details_def Let_def ebind_def finish_def
        split: sum.splits)
  have N1: "\<not> err_truthy error \<and> ups_shipment response = Inr shipment
        \<and> py_in_keys ''warnings'' shipment = Inr False
        \<and> py_getitem shipment ''package'' = Inr packages \<and> py_len packages = Inr n \<and> 0 < n
        \<and> fst (set_data_in_delivery_note e s doc response error ''By Reference'') = None \<longrightarrow>
       custom_last_api_call (snd (set_data_in_delivery_note e s doc response error ''By Reference''))
         = Some (now e)"
    using ups_by_reference_stamps[of error response shipment packages n e s doc] by blast
  have N2: "\<not> err_truthy error \<and> ups_shipment response = Inr shipment
        \<and> py_in_keys ''warnings'' shipment = Inr False
        \<and> py_getitem shipment ''package'' = Inr packages \<and> py_len packages = Inr n \<and> 0 < n
        \<and> py_index0 packages = Inr p0 \<and> py_getitem p0 ''activity'' = Inr activities
        \<and> py_len activities = Inr k \<and> 0 < k
        \<and> fst (set_data_in_delivery_note e s doc response error ''By Tracking ID'') = None \<longrightarrow>
       custom_last_api_call (snd (set_data_in_delivery_note e s doc response error ''By Tracking ID''))
         = Some (now e)"
    using ups_by_tracking_id_stamps[of error response shipment packages n p0 activities k e s doc] by blast
  have N3: "\<not> err_truthy error \<and> truthy response \<and> py_get response ''output'' = Inr outp
        \<and> truthy outp \<and> py_get outp ''completeTrackResults'' = Inr ctr \<and> truthy ctr
        \<and> py_index0 ctr = Inr track_results \<and> truthy track_results
        \<and> first_track_result track_results = Inr r0
        \<and> py_in_keys ''latestStatusDetail'' r0 = Inr True
        \<and> (api_type = PStr ''By Reference'' \<or> api_type = PStr ''By Tracking ID'')
        \<and> fst (update_delivery_note_with_fedex_details e s doc response error api_type) = None \<longrightarrow>
       custom_last_api_call (snd (update_delivery_note_with_fedex_details e s doc response error api_type))
         = Some (now e)"
    using fedex_found_stamps[of error response outp ctr track_results r0 api_type e s doc] by blast
  have N4: "\<not> err_truthy error \<and> truthy response \<and> py_get response ''shipments'' = Inr shipments
        \<and> truthy shipments \<and> py_index0 shipments = Inr first_shipment \<and> truthy first_shipment
        \<and> fst (update_delivery_note_with_priority_details e s doc response error) = None \<longrightarrow>
       custom_last_api_call (snd (update_delivery_note_with_priority_details e s doc response error))
         = Some (now e)"
    using priority_found_stamps[of error response shipments first_shipment e s doc] by blast
  show ?thesis
    by (intro conjI) (rule U F P W E N1 N2 N3 N4)+
qed

theorem last_api_call_written_with_status_witness:
  "snd (set_data_in_delivery_note example_env example_settings example_dn ups_warning_result
          ErrNone ''By Reference'')
     = example_dn\<lparr>custom_tracking := PStr ''DN Not Found In UPS''\<rparr>
   \<and> fst (set_data_in_delivery_note example_env example_settings example_dn_tracked
            (ups_result [ups_package ''1Z999AA10123456784'' ''3'']) ErrNone ''By Tracking ID'')
       = None
   \<and> custom_last_api_call
        (snd (set_data_in_delivery_note example_env example_settings example_dn_tracked
                (ups_result [ups_package ''1Z999AA10123456784'' ''3'']) ErrNone ''By Tracking ID''))
       = Some 1762250400"
proof -
  let ?w = "PDict [(''warnings'', PList [PDict [(''code'', PStr ''TW0001''),
                                              (''message'', PStr ''Tracking Information Not Found'')]])]"
  let ?p = "ups_package ''1Z999AA10123456784'' ''3''"
  let ?acts = "PList [PDict [(''status'', PDict [(''statusCode'', PStr ''3'')])]]"
  let ?sh = "PDict [(''package'', PList [?p])]"
  have a: "\<not> err_truthy ErrNone" by simp
  have b: "ups_shipment ups_warning_result = Inr ?w"
    by (simp add: ups_shipment_def ups_warning_result_def ebind_def)
  have c: "py_in_keys ''warnings'' ?w = Inr True" by simp
  note T1 = last_api_call_written_with_status
        [where e = example_env and s = example_settings and doc = example_dn
           and response = ups_warning_result and error = ErrNone
           and tracking_method = "''By Reference''" and shipment = ?w,
         THEN conjunct2, THEN conjunct2, THEN conjunct2, THEN conjunct1]
  have w: "snd (set_data_in_delivery_note example_env example_settings example_dn ups_warning_result
          ErrNone ''By Reference'')
     = example_dn\<lparr>custom_tracking := PStr ''DN Not Found In UPS''\<rparr>"
    using T1 a b c by blast
  have h1: "ups_shipment (ups_result [?p]) = Inr ?sh"
    by (simp add: ups_shipment_def ups_result_def ebind_def)
  have h2: "py_in_keys ''warnings'' ?sh = Inr False" by simp
  have h3: "py_getitem ?sh ''package'' = Inr (PList [?p])" by simp
  have h4: "py_len (PList [?p]) = Inr 1" "(0::nat) < 1" by simp_all
  have h5: "py_index0 (PList [?p]) = Inr ?p" by simp
  have h6: "py_getitem ?p ''activity'' = Inr ?acts" by (simp add: ups_package_def)
  have h7: "py_len ?acts = Inr 1" by simp
  have h8: "fst (set_data_in_delivery_note example_env example_settings example_dn_tracked
            (ups_result [?p]) ErrNone ''By Tracking ID'') = None"
    by (simp add: set_data_in_delivery_note_def Let_def ups_package_def ups_result_def
      ups_shipment_def ebind_def finish_def example_env_def example_cint_def
      example_settings_def dict_of_rows_def dict_item_def)
  note T2 = last_api_call_written_with_status
        [where e = example_env and s = example_settings and doc = example_dn_tracked
           and response = "ups_result [?p]" and error = ErrNone
           and shipment = ?sh and packages = "PList [?p]" and n = 1 and ?p0.0 = ?p
           and activities = ?acts and k = 1,
         THEN conjunct2, THEN conjunct2, THEN conjunct2, THEN conjunct2, THEN conjunct2,
         THEN conjunct2, THEN conjunct1]
  have st: "custom_last_api_call
        (snd (set_data_in_delivery_note example_env example_settings example_dn_tracked
                (ups_result [?p]) ErrNone ''By Tracking ID''))
       = Some (now example_env)"
    using T2 a h1 h2 h3 h4 h5 h6 h7 h8 by blast
  have nw: "now example_env = 1762250400" by (simp add: example_env_def)
  show ?thesis using w h8 st nw by simp
qed

text \<open>
  C2 as stated fails for UPS and Priority: both save the status \<open>Processing\<close> for
  a Delivery Note whose date of the first \<open>Processing\<close> is empty, and leave it
  empty.
\<close>

theorem no_processing_date_for_ups_and_priority_counterexample:
  "set_data_in_delivery_note example_env example_settings example_dn_tracked
      (ups_result [ups_package ''1Z999AA10123456784'' ''3'']) ErrNone ''By Tracking ID''
    = (None, example_dn_tracked\<lparr>custom_tracking_code := PStr ''3'',
                                custom_tracking := PStr ''Processing'',
                                custom_last_api_call := Some 1762250400\<rparr>)
   \<and> update_delivery_note_with_priority_details example_env example_settings example_dn
        (priority_result 77 ''Dispatched'') ErrNone
    = (None, example_dn\<lparr>tracking_number := PInt 77, custom_tracking_code := PStr ''200'',
                        custom_tracking := PStr ''Processing'',
                        custom_last_api_call := Some 1762250400\<rparr>)
   \<and> custom_last_date_for_processing_status example_dn_tracked = None
   \<and> custom_last_date_for_processing_status example_dn = None"
  by (simp add: set_data_in_delivery_note_def Let_def ups_result_def ups_package_def
      ups_shipment_def ebind_def finish_def example_env_def
      example_cint_def example_settings_def dict_of_rows_def dict_item_def
      example_dn_def example_dn_tracked_def update_delivery_note_with_priority_details_def
      priority_result_def table_get_def dict_get_def)

text \<open>
  C2. Only the FedEx handler keeps the date of the first \<open>Processing\<close>. Whenever
  it saves shipment data (by either method), the saved status is the one it normalized
  and \<open>custom_last_date_for_processing_status\<close> is set to today when the status is
  \<open>Processing\<close> and the date was empty, is kept when the status is
  \<open>Processing\<close> and the date was there, and is cleared when the status is anything
  else; a second poll with the same answer, on whatever day, leaves the date of a
  \<open>Processing\<close> shipment as the first poll set it. The UPS and Priority handlers
  never assign the field, as the example preceding the theorem shows.
\<close>

theorem fedex_processing_date_rule:
  assumes "\<not> err_truthy error"
    and "map_of kvs ''output'' = Some (PDict okvs)"
    and "map_of okvs ''completeTrackResults'' = Some (PList (PDict tkvs # rest))"
    and "map_of tkvs ''trackResults'' = Some (PList (PDict rkvs # rest'))"
    and "map_of rkvs ''latestStatusDetail'' = Some lsd"
    and "fedex_code_and_status (dict_of_rows (tracking_code_description s)) (PDict rkvs)
           = Inr (code, status)"
    and "api_type = PStr ''By Reference'' \<or> api_type = PStr ''By Tracking ID''"
  shows "fst (update_delivery_note_with_fedex_details e s doc (PDict kvs) error api_type) = None
    \<and> custom_tracking (snd (update_delivery_note_with_fedex_details e s doc (PDict kvs) error api_type))
        = status
    \<and> (status = PStr ''Processing'' \<and> custom_last_date_for_processing_status doc = None \<longrightarrow>
        custom_last_date_for_processing_status
          (snd (update_delivery_note_with_fedex_details e s doc (PDict kvs) error api_type))
        = Some (today e))
    \<and> (status = PStr ''Processing'' \<and> custom_last_date_for_processing_status doc \<noteq> None \<longrightarrow>
        custom_last_date_for_processing_status
          (snd (update_delivery_note_with_fedex_details e s doc (PDict kvs) error api_type))
        = custom_last_date_for_processing_status doc)
    \<and> (status \<noteq> PStr ''Processing'' \<longrightarrow>
        custom_last_date_for_processing_status
          (snd (update_delivery_note_with_fedex_details e s doc (PDict kvs) error api_type))
        = None)
    \<and> (status = PStr ''Processing'' \<longrightarrow>
        custom_last_date_for_processing_status
          (snd (update_delivery_note_with_fedex_details e2 s
                  (snd (update_delivery_note_with_fedex_details e s doc (PDict kvs) error api_type))
                  (PDict kvs) error api_type))
        = custom_last_date_for_processing_status
            (snd (update_delivery_note_with_fedex_details e s doc (PDict kvs) error api_type)))"
  using assms(7)
proof
  assume a: "api_type = PStr ''By Reference''"
  show ?thesis
    unfolding a fedex_found_run(1)[OF assms(1-6)]
    by (auto simp add: set_if_absent_def split: option.splits)
next
  assume a: "api_type = PStr ''By Tracking ID''"
  show ?thesis
    unfolding a fedex_found_run(2)[OF assms(1-6)]
    by (auto simp add: set_if_absent_def split: option.splits)
qed

theorem fedex_processing_date_rule_witness:
  "\<not> err_truthy ErrNone
   \<and> fedex_code_and_status (dict_of_rows (tracking_code_description example_settings))
        (PDict [(''latestStatusDetail'', PDict [(''code'', PStr ''OC''),
                                                (''description'', PStr ''Order Created'')]),
                (''statusCode'', PStr ''OC'')])
       = Inr (PStr ''OC'', PStr ''Processing'')
   \<and> custom_last_date_for_processing_status example_dn = None
   \<and> custom_last_date_for_processing_status
        (snd (update_delivery_note_with_fedex_details example_env example_settings example_dn
           (fedex_result ''7946''
              [(''latestStatusDetail'', PDict [(''code'', PStr ''OC''),
                                               (''description'', PStr ''Order Created'')]),
               (''statusCode'', PStr ''OC'')])
           ErrNone (PStr ''By Reference'')))
       = Some 20396
   \<and> custom_last_date_for_processing_status
        (snd (update_delivery_note_with_fedex_details (example_env\<lparr>today := 20400\<rparr>)
           example_settings
           (snd (update_delivery_note_with_fedex_details example_env example_settings example_dn
              (fedex_result ''7946''
                 [(''latestStatusDetail'', PDict [(''code'', PStr ''OC''),
                                                  (''description'', PStr ''Order Created'')]),
                  (''statusCode'', PStr ''OC'')])
              ErrNone (PStr ''By Reference'')))
           (fedex_result ''7946''
              [(''latestStatusDetail'', PDict [(''code'', PStr ''OC''),
                                               (''description'', PStr ''Order Created'')]),
               (''statusCode'', PStr ''OC'')])
           ErrNone (PStr ''By Reference'')))
       = Some 20396"
proof -
  let ?lsd = "PDict [(''code'', PStr ''OC''), (''description'', PStr ''Order Created'')]"
  let ?rkvs = "[(''latestStatusDetail'', ?lsd), (''statusCode'', PStr ''OC'')]"
  let ?tkvs = "[(''trackingNumber'', PStr ''7946''), (''trackResults'', PList [PDict ?rkvs])]"
  let ?okvs = "[(''completeTrackResults'', PList [PDict ?tkvs])]"
  let ?kvs = "[(''output'', PDict ?okvs)]"
  have r: "fedex_result ''7946'' ?rkvs = PDict ?kvs" by (simp add: fedex_result_def)
  have h1: "\<not> err_truthy ErrNone" by simp
  have h2: "map_of ?kvs ''output'' = Some (PDict ?okvs)" by simp
  have h3: "map_of ?okvs ''completeTrackResults'' = Some (PList (PDict ?tkvs # []))" by simp
  have h4: "map_of ?tkvs ''trackResults'' = Some (PList (PDict ?rkvs # []))" by simp
  have h5: "map_of ?rkvs ''latestStatusDetail'' = Some ?lsd" by simp
  have h6: "fedex_code_and_status (dict_of_rows (tracking_code_description example_settings))
              (PDict ?rkvs) = Inr (PStr ''OC'', PStr ''Processing'')"
    by (simp add: fedex_code_and_status_def ebind_def table_get_def dict_get_def
        example_settings_def dict_of_rows_def)
  have h7: "PStr ''By Reference'' = PStr ''By Reference'' \<or> PStr ''By Reference'' = PStr ''By Tracking ID''"
    by simp
  have d: "custom_last_date_for_processing_status example_dn = None"
    by (simp add: example_dn_def)
  have t: "today example_env = 20396" by (simp add: example_env_def)
  show ?thesis
    using h1 h6 d t
      fedex_processing_date_rule
        [where e = example_env and ?e2.0 = "example_env\<lparr>today := 20400\<rparr>"
           and s = example_settings and doc = example_dn, OF h1 h2 h3 h4 h5 h6 h7]
    by (simp add: r)
qed

text \<open>
  C1 as stated fails: a FedEx code that is not in the table, with no description, and a
  Priority status that is not in the table are both saved as the status \<open>None\<close>.
\<close>

theorem unmapped_code_gives_null_status_counterexample:
  "update_delivery_note_with_fedex_details example_env example_settings example_dn_tracked
      (fedex_result ''7946'' [(''latestStatusDetail'', PDict [(''code'', PStr ''ZZ'')]),
                              (''statusCode'', PStr ''ZZ'')])
      ErrNone (PStr ''By Tracking ID'')
    = (None, example_dn_tracked\<lparr>custom_last_api_call := Some 1762250400,
                                custom_tracking_code := PStr ''ZZ'',
                                custom_tracking := PNone\<rparr>)
   \<and> update_delivery_note_with_priority_details example_env example_settings example_dn
        (priority_result 77 ''On Hold'') ErrNone
    = (None, example_dn\<lparr>tracking_number := PInt 77, custom_tracking_code := PStr ''200'',
                        custom_tracking := PNone, custom_last_api_call := Some 1762250400\<rparr>)"
  by (simp add: update_delivery_note_with_fedex_details_def Let_def fedex_result_def
      ebind_def finish_def first_track_result_def fedex_status_and_date_def
      fedex_code_and_status_def table_get_def dict_get_def example_settings_def
      dict_of_rows_def py_eq_def example_env_def example_dn_tracked_def example_dn_def
      update_delivery_note_with_priority_details_def priority_result_def)

text \<open>
  C1. No handler knows a status \<open>Unmapped\<close>. When FedEx saves shipment data,
  the lookup of a scalar code with \<open>get\<close> does not raise, and the saved status is
  the entry of the table when there is a truthy one, else the carrier's
  \<open>description\<close>, which is \<open>None\<close> when the carrier gave none; when Priority
  saves shipment data, the lookup does not raise either and the saved status is the
  entry of the table, or \<open>None\<close> when the carrier's status is not in the table.
  The example preceding the theorem has both cases of a \<open>None\<close> status.
\<close>

theorem registry_miss_falls_back:
  assumes "\<not> err_truthy error"
    and "map_of kvs ''output'' = Some (PDict okvs)"
    and "map_of okvs ''completeTrackResults'' = Some (PList (PDict tkvs # rest))"
    and "map_of tkvs ''trackResults'' = Some (PList (PDict rkvs # rest'))"
    and "map_of rkvs ''latestStatusDetail'' = Some (PDict lkvs)"
    and "hashable (dict_attr rkvs ''statusCode'')"
    and "api_type = PStr ''By Reference'' \<or> api_type = PStr ''By Tracking ID''"
    and "map_of pkvs ''shipments'' = Some (PList (PDict skvs # prest))"
    and "skvs \<noteq> []"
    and "hashable (dict_attr skvs ''status'')"
  shows "update_delivery_note_with_fedex_details e s doc (PDict kvs) error api_type
         = (None, snd (update_delivery_note_with_fedex_details e s doc (PDict kvs) error api_type))
    \<and> custom_tracking (snd (update_delivery_note_with_fedex_details e s doc (PDict kvs) error api_type))
        = (case dict_of_rows (tracking_code_description s) (py_key (dict_attr rkvs ''statusCode'')) of
             None \<Rightarrow> dict_attr lkvs ''description''
           | Some v \<Rightarrow> py_or (of_field v) (dict_attr lkvs ''description''))
    \<and> update_delivery_note_with_priority_details e s doc (PDict pkvs) error
         = (None, snd (update_delivery_note_with_priority_details e s doc (PDict pkvs) error))
    \<and> custom_tracking (snd (update_delivery_note_with_priority_details e s doc (PDict pkvs) error))
        = (case dict_of_rows (response_code_details s) (py_key (dict_attr skvs ''status'')) of
             None \<Rightarrow> PNone | Some v \<Rightarrow> of_field v)"
proof -
  note cs = fedex_code_and_status_dict[OF assms(5,6), of "dict_of_rows (tracking_code_description s)"]
  note f = fedex_found_run[OF assms(1-5) cs]
  note p = priority_found_run[OF assms(1,8,9,10)]
  from assms(7) show ?thesis
  proof
    assume a: "api_type = PStr ''By Reference''"
    show ?thesis unfolding a f(1) p by simp
  next
    assume a: "api_type = PStr ''By Tracking ID''"
    show ?thesis unfolding a f(2) p by simp
  qed
qed

theorem registry_miss_falls_back_witness:
  "custom_tracking
     (snd (update_delivery_note_with_fedex_details example_env example_settings example_dn_tracked
        (fedex_result ''7946''
           [(''latestStatusDetail'', PDict [(''code'', PStr ''ZZ''),
                                            (''description'', PStr ''Clearance delay'')]),
            (''statusCode'', PStr ''ZZ'')])
        ErrNone (PStr ''By Tracking ID'')))
     = PStr ''Clearance delay''
   \<and> custom_tracking
       (snd (update_delivery_note_with_priority_details example_env example_settings
          example_dn_tracked (priority_result 77 ''Dispatched'') ErrNone))
     = PStr ''Processing''"
proof -
  let ?lkvs = "[(''code'', PStr ''ZZ''), (''description'', PStr ''Clearance delay'')]"
  let ?rkvs = "[(''latestStatusDetail'', PDict ?lkvs), (''statusCode'', PStr ''ZZ'')]"
  let ?tkvs = "[(''trackingNumber'', PStr ''7946''), (''trackResults'', PList [PDict ?rkvs])]"
  let ?okvs = "[(''completeTrackResults'', PList [PDict ?tkvs])]"
  let ?kvs = "[(''output'', PDict ?okvs)]"
  let ?skvs = "[(''id'', PInt 77), (''status'', PStr ''Dispatched'')]"
  let ?pkvs = "[(''shipments'', PList [PDict ?skvs])]"
  have r: "fedex_result ''7946'' ?rkvs = PDict ?kvs" by (simp add: fedex_result_def)
  have q: "priority_result 77 ''Dispatched'' = PDict ?pkvs" by (simp add: priority_result_def)
  have h1: "\<not> err_truthy ErrNone" by simp
  have h2: "map_of ?kvs ''output'' = Some (PDict ?okvs)" by simp
  have h3: "map_of ?okvs ''completeTrackResults'' = Some (PList (PDict ?tkvs # []))" by simp
  have h4: "map_of ?tkvs ''trackResults'' = Some (PList (PDict ?rkvs # []))" by simp
  have h5: "map_of ?rkvs ''latestStatusDetail'' = Some (PDict ?lkvs)" by simp
  have h6: "hashable (dict_attr ?rkvs ''statusCode'')" by (simp add: dict_attr_def)
  have h7: "PStr ''By Tracking ID'' = PStr ''By Reference''
            \<or> PStr ''By Tracking ID'' = PStr ''By Tracking ID''" by simp
  have h8: "map_of ?pkvs ''shipments'' = Some (PList (PDict ?skvs # []))" by simp
  have h9: "?skvs \<noteq> []" by simp
  have h10: "hashable (dict_attr ?skvs ''status'')" by (simp add: dict_attr_def)
  show ?thesis
    using registry_miss_falls_back
        [where e = example_env and s = example_settings and doc = example_dn_tracked,
         OF h1 h2 h3 h4 h5 h6 h7 h8 h9 h10]
    by (simp add: r q dict_attr_def example_settings_def dict_of_rows_def)
qed

text \<open>
  Where the UPS answer has no \<open>warnings\<close> and every package carries a tracking
  number and a code whose integer value is in the code table, the handler \<open>By
  Reference\<close> captures the first package: its tracking number, its code, the table's
  status for the code and the time of the call, with one child row per package. The
  FedEx handler \<open>By Reference\<close> captures the tracking number of the first
  complete result, the code of the first result's status detail and the time of the
  call.
\<close>

lemma by_reference_registered_capture:
  assumes "\<not> err_truthy error"
    and "map_of kvs ''trackResponse'' = Some (PDict tkvs)"
    and "map_of tkvs ''shipment'' = Some (PList (PDict skvs # rest))"
    and "map_of skvs ''warnings'' = None"
    and "map_of skvs ''package'' = Some (PList (p0 # ps))"
    and "py_getitem p0 ''trackingNumber'' = Inr tid"
    and "current_status_code p0 = Inr code"
    and "dict_of_rows (status_code_description s) (PInt (cint e code)) = Some v0"
    and "\<forall>p\<in>set ps. \<exists>t c v. py_getitem p ''trackingNumber'' = Inr t
           \<and> current_status_code p = Inr c
           \<and> dict_of_rows (status_code_description s) (PInt (cint e c)) = Some v"
    and "map_of fkvs ''output'' = Some (PDict okvs)"
    and "map_of okvs ''completeTrackResults'' = Some (PList (PDict ctkvs # frest))"
    and "map_of ctkvs ''trackResults'' = Some (PList (PDict rkvs # rest'))"
    and "map_of rkvs ''latestStatusDetail'' = Some (PDict lkvs)"
    and "hashable (dict_attr rkvs ''statusCode'')"
  shows "(\<exists>new. length new = length (p0 # ps)
           \<and> set_data_in_delivery_note e s doc (PDict kvs) error ''By Reference''
             = (None, doc\<lparr>tracking_number := tid, custom_tracking_code := code,
                          custom_tracking := of_field v0,
                          custom_last_api_call := Some (now e),
                          custom_tracking_details := custom_tracking_details doc @ new\<rparr>))
    \<and> (code = PStr ''5'' \<and> v0 = FStr ''In Transit'' \<longrightarrow>
         tracking_number (snd (set_data_in_delivery_note e s doc (PDict kvs) error ''By Reference'')) = tid
         \<and> custom_tracking_code (snd (set_data_in_delivery_note e s doc (PDict kvs) error ''By Reference''))
             = PStr ''5''
         \<and> custom_tracking (snd (set_data_in_delivery_note e s doc (PDict kvs) error ''By Reference''))
             = PStr ''In Transit''
         \<and> custom_last_api_call (snd (set_data_in_delivery_note e s doc (PDict kvs) error ''By Reference''))
             = Some (now e))
    \<and> fst (update_delivery_note_with_fedex_details e s doc (PDict fkvs) error (PStr ''By Reference''))
        = None
    \<and> tracking_number
         (snd (update_delivery_note_with_fedex_details e s doc (PDict fkvs) error (PStr ''By Reference'')))
        = dict_attr ctkvs ''trackingNumber''
    \<and> custom_tracking_code
         (snd (update_delivery_note_with_fedex_details e s doc (PDict fkvs) error (PStr ''By Reference'')))
        = dict_attr lkvs ''code''
    \<and> custom_last_api_call
         (snd (update_delivery_note_with_fedex_details e s doc (PDict fkvs) error (PStr ''By Reference'')))
        = Some (now e)"
proof -
  let ?m = "dict_of_rows (status_code_description s)"
  have "\<forall>p\<in>set (p0 # ps). \<exists>t c v. py_getitem p ''trackingNumber'' = Inr t
           \<and> current_status_code p = Inr c \<and> ?m (PInt (cint e c)) = Some v"
    using assms(6-9) by simp
  from append_tracking_details_registered[OF this, of "custom_tracking_details doc"]
  obtain new where n: "length new = length (p0 # ps)"
    and a: "append_tracking_details e ?m (p0 # ps) (custom_tracking_details doc)
            = Inr (custom_tracking_details doc @ new)"
    by blast
  have ps: "parent_status (status_code_description s) (cint e code) = of_field v0"
    using assms(8) by (simp add: parent_status_dict)
  have U: "set_data_in_delivery_note e s doc (PDict kvs) error ''By Reference''
             = (None, doc\<lparr>tracking_number := tid, custom_tracking_code := code,
                          custom_tracking := of_field v0,
                          custom_last_api_call := Some (now e),
                          custom_tracking_details := custom_tracking_details doc @ new\<rparr>)"
    using ups_by_reference_run[OF assms(1-7) a] by (simp add: ps)
  note cs = fedex_code_and_status_dict[OF assms(13,14), of "dict_of_rows (tracking_code_description s)"]
  note F = fedex_found_run(1)[OF assms(1) assms(10-13) cs]
  have U1: "\<exists>new. length new = length (p0 # ps)
           \<and> set_data_in_delivery_note e s doc (PDict kvs) error ''By Reference''
             = (None, doc\<lparr>tracking_number := tid, custom_tracking_code := code,
                          custom_tracking := of_field v0,
                          custom_last_api_call := Some (now e),
                          custom_tracking_details := custom_tracking_details doc @ new\<rparr>)"
    using n U by blast
  show ?thesis
    apply (intro conjI)
         apply (rule U1)
        apply (simp add: U)
       apply (simp_all add: F)
    done
qed

lemma by_reference_registered_capture_example:
  "set_data_in_delivery_note example_env example_settings example_dn
      (ups_result [ups_package ''1Z1'' ''5'', ups_package ''1Z2'' ''3'']) ErrNone ''By Reference''
    = (None, example_dn\<lparr>tracking_number := PStr ''1Z1'', custom_tracking_code := PStr ''5'',
                        custom_tracking := PStr ''In Transit'',
                        custom_last_api_call := Some 1762250400,
                        custom_tracking_details :=
                          [(PStr ''1Z1'', PStr ''5'', PStr ''In Transit''),
                           (PStr ''1Z2'', PStr ''3'', PStr ''Processing'')]\<rparr>)
   \<and> tracking_number
        (snd (update_delivery_note_with_fedex_details example_env example_settings example_dn
           (fedex_result ''7946''
              [(''latestStatusDetail'', PDict [(''code'', PStr ''DL''),
                                               (''description'', PStr ''Package delivered'')])])
           ErrNone (PStr ''By Reference'')))
       = PStr ''7946''"
proof -
  let ?p0 = "ups_package ''1Z1'' ''5''"
  let ?p1 = "ups_package ''1Z2'' ''3''"
  let ?skvs = "[(''package'', PList [?p0, ?p1])]"
  let ?tkvs = "[(''shipment'', PList [PDict ?skvs])]"
  let ?kvs = "[(''trackResponse'', PDict ?tkvs)]"
  let ?lkvs = "[(''code'', PStr ''DL''), (''description'', PStr ''Package delivered'')]"
  let ?rkvs = "[(''latestStatusDetail'', PDict ?lkvs)]"
  let ?ctkvs = "[(''trackingNumber'', PStr ''7946''), (''trackResults'', PList [PDict ?rkvs])]"
  let ?okvs = "[(''completeTrackResults'', PList [PDict ?ctkvs])]"
  let ?fkvs = "[(''output'', PDict ?okvs)]"
  have r: "ups_result [?p0, ?p1] = PDict ?kvs" by (simp add: ups_result_def)
  have f: "fedex_result ''7946'' ?rkvs = PDict ?fkvs" by (simp add: fedex_result_def)
  have h1: "\<not> err_truthy ErrNone" by simp
  have h2: "map_of ?kvs ''trackResponse'' = Some (PDict ?tkvs)" by simp
  have h3: "map_of ?tkvs ''shipment'' = Some (PList (PDict ?skvs # []))" by simp
  have h4: "map_of ?skvs ''warnings'' = None" by simp
  have h5: "map_of ?skvs ''package'' = Some (PList (?p0 # [?p1]))" by simp
  have h6: "py_getitem ?p0 ''trackingNumber'' = Inr (PStr ''1Z1'')"
    by (simp add: ups_package_def)
  have h7: "current_status_code ?p0 = Inr (PStr ''5'')"
    by (simp add: ups_package_def current_status_code_def ebind_def)
  have c5: "cint example_env (PStr ''5'') = 5" and c3: "cint example_env (PStr ''3'') = 3"
    by (simp_all add: example_env_def example_cint_def)
  have h8: "dict_of_rows (status_code_description example_settings)
              (PInt (cint example_env (PStr ''5''))) = Some (FStr ''In Transit'')"
    by (simp add: c5 example_settings_def dict_of_rows_def)
  have h9: "\<forall>p\<in>set [?p1]. \<exists>t c v. py_getitem p ''trackingNumber'' = Inr t
           \<and> current_status_code p = Inr c
           \<and> dict_of_rows (status_code_description example_settings)
                (PInt (cint example_env c)) = Some v"
    by (simp add: ups_package_def current_status_code_def ebind_def c3 example_settings_def
        dict_of_rows_def)
  have h10: "map_of ?fkvs ''output'' = Some (PDict ?okvs)" by simp
  have h11: "map_of ?okvs ''completeTrackResults'' = Some (PList (PDict ?ctkvs # []))" by simp
  have h12: "map_of ?ctkvs ''trackResults'' = Some (PList (PDict ?rkvs # []))" by simp
  have h13: "map_of ?rkvs ''latestStatusDetail'' = Some (PDict ?lkvs)" by simp
  have h14: "hashable (dict_attr ?rkvs ''statusCode'')" by (simp add: dict_attr_def)
  have direct: "custom_tracking_details
      (snd (set_data_in_delivery_note example_env example_settings example_dn
         (PDict ?kvs) ErrNone ''By Reference''))
     = [(PStr ''1Z1'', PStr ''5'', PStr ''In Transit''),
        (PStr ''1Z2'', PStr ''3'', PStr ''Processing'')]"
    by (simp add: set_data_in_delivery_note_def Let_def ups_package_def
      ups_shipment_def ebind_def finish_def current_status_code_def example_env_def
      example_cint_def example_settings_def dict_of_rows_def dict_item_def example_dn_def)
  from by_reference_registered_capture
        [where e = example_env and s = example_settings and doc = example_dn,
         OF h1 h2 h3 h4 h5 h6 h7 h8 h9 h10 h11 h12 h13 h14]
  show ?thesis
    using direct
    by (auto simp add: r f dict_attr_def example_env_def)
qed

text \<open>
  C3. The UPS handler does not do what the claim says for every answer with shipment
  data. With one package of code \<open>5\<close>, registered as \<open>In Transit\<close>, it saves
  the package's tracking number, the code \<open>5\<close>, the status \<open>In Transit\<close>
  and the time of the call. With a second package whose code is not in the table, the
  subscript \<open>code_status_map[...]\<close> in the loop over the packages raises
  \<open>KeyError\<close> after the first package's fields are assigned and before the
  save: the exception escapes and nothing is captured. The FedEx handler saves the code
  of the status detail but looks up another key of the result, so a registered code
  \<open>DL\<close> is saved with the carrier's description as its status.
\<close>

theorem ups_unregistered_package_code_raises:
  "set_data_in_delivery_note example_env example_settings example_dn
      (ups_result [ups_package ''1Z1'' ''5'']) ErrNone ''By Reference''
    = (None, example_dn\<lparr>tracking_number := PStr ''1Z1'', custom_tracking_code := PStr ''5'',
                        custom_tracking := PStr ''In Transit'',
                        custom_last_api_call := Some 1762250400,
                        custom_tracking_details := [(PStr ''1Z1'', PStr ''5'', PStr ''In Transit'')]\<rparr>)
   \<and> set_data_in_delivery_note example_env example_settings example_dn
      (ups_result [ups_package ''1Z1'' ''5'', ups_package ''1Z2'' ''999'']) ErrNone ''By Reference''
    = (Some KeyError, example_dn)
   \<and> dict_of_rows (tracking_code_description example_settings) (PStr ''DL'')
       = Some (FStr ''Delivered'')
   \<and> update_delivery_note_with_fedex_details example_env example_settings example_dn
        (fedex_result ''7946''
           [(''latestStatusDetail'', PDict [(''code'', PStr ''DL''),
                                            (''description'', PStr ''Package delivered'')])])
        ErrNone (PStr ''By Reference'')
    = (None, example_dn\<lparr>custom_last_api_call := Some 1762250400,
                        tracking_number := PStr ''7946'',
                        custom_tracking_code := PStr ''DL'',
                        custom_tracking := PStr ''Package delivered''\<rparr>)"
  by (simp add: set_data_in_delivery_note_def Let_def ups_result_def ups_package_def
      ups_shipment_def ebind_def finish_def current_status_code_def example_env_def
      example_cint_def example_settings_def dict_of_rows_def dict_item_def
      example_dn_def update_delivery_note_with_fedex_details_def fedex_result_def
      first_track_result_def fedex_status_and_date_def fedex_code_and_status_def
      table_get_def dict_get_def py_eq_def parent_status_def)

end
